theory Spec2Isabelle
  imports Complex_Main
begin

section \<open>SafeHer: the SOS store, notifier and tracking registry\<close>

text \<open>
  The server code of the repository is embedded function by function:
  \<^item> \<open>server/db.ts\<close>: the data-access layer over the MySQL tables of
    \<open>drizzle/schema.ts\<close>;
  \<^item> \<open>server/routers.ts\<close>: the procedures of the \<open>device\<close>, \<open>contacts\<close>, \<open>sos\<close> and
    \<open>offline\<close> routers;
  \<^item> the notification service (\<open>sendEmergencyAlert\<close>, \<open>notifyAllContacts\<close>);
  \<^item> the tracking service (\<open>updateLocation\<close>, \<open>cleanupExpiredSessions\<close>).

  Every \<open>async\<close> function is a function from the state of the world to a result and the
  next state; a thrown error is the left summand of the result.
\<close>

subsection \<open>Values\<close>

text \<open>
  A JavaScript number that is finite is a rational. A DECIMAL column is written and read
  as decimal text (\<open>latitude.toString()\<close>); the text is represented by the number it
  denotes, so that \<open>"12.9716"\<close> and \<open>"12.97160000"\<close> are the same value. What a DECIMAL
  column keeps of a value it is sent is \<open>decimalColumn\<close> below.
\<close>

type_synonym number = rat

datatype decimalText = DecimalText number

definition toString :: "number \<Rightarrow> decimalText" where
  "toString x = DecimalText x"

text \<open>Timestamps are milliseconds since the epoch (\<open>Date.getTime()\<close>).\<close>

type_synonym date = int

datatype sosStatus = Active | Resolved | Cancelled | Expired

datatype triggerType = Manual | Voice | Offline

datatype notificationType = Sms | Email

datatype notificationStatus = Pending | Sent | Failed | Delivered

datatype queueStatus = QueuePending | QueueSynced | QueueFailed

datatype trpcCode = BAD_REQUEST | TOO_MANY_REQUESTS | INTERNAL_SERVER_ERROR | NOT_FOUND

text \<open>
  Everything thrown is an \<open>Error\<close> with a message: a \<open>TRPCError\<close>, a plain \<open>Error\<close>, or an
  error raised by the database driver.
\<close>

datatype error = TRPCError trpcCode string | JsError string | DriverError string

fun message :: "error \<Rightarrow> string" where
  "message (TRPCError c m) = m"
| "message (JsError m) = m"
| "message (DriverError m) = m"

subsection \<open>Rows of \<open>drizzle/schema.ts\<close>\<close>

text \<open>
  The surrogate key \<open>id\<close> is kept where the server reads it (emergency contacts); the
  columns \<open>id\<close> and \<open>updatedAt\<close> of the other tables are assigned by the database and never
  read by the server, and are left out. The fields of each table carry a prefix, since a
  field name is global to the theory.
\<close>

record device =
  dev_deviceId :: string
  dev_name :: string
  dev_phone :: string
  dev_email :: "string option"
  dev_isActive :: bool
  dev_lastLocationLat :: "decimalText option"
  dev_lastLocationLng :: "decimalText option"
  dev_lastLocationTimestamp :: "date option"
  dev_createdAt :: date

record insertDevice =
  idev_deviceId :: string
  idev_name :: string
  idev_phone :: string
  idev_email :: "string option"
  idev_isActive :: bool

text \<open>A \<open>Partial<Device>\<close>: \<open>None\<close> is a key that is absent from the object.\<close>

record devicePatch =
  pdev_name :: "string option"
  pdev_phone :: "string option"
  pdev_email :: "string option"
  pdev_lastLocationLat :: "decimalText option"
  pdev_lastLocationLng :: "decimalText option"
  pdev_lastLocationTimestamp :: "date option"

record emergencyContact =
  ec_id :: int
  ec_deviceId :: string
  ec_name :: string
  ec_phone :: string
  ec_email :: "string option"
  ec_priority :: int
  ec_isActive :: bool

text \<open>The object handed to \<open>createEmergencyContact\<close>; the database assigns the \<open>id\<close>.\<close>

record insertEmergencyContact =
  iec_deviceId :: string
  iec_name :: string
  iec_phone :: string
  iec_email :: "string option"
  iec_priority :: int
  iec_isActive :: bool

record contactPatch =
  pec_name :: "string option"
  pec_phone :: "string option"
  pec_email :: "string option"
  pec_priority :: "int option"

record sosEvent =
  ev_eventId :: string
  ev_deviceId :: string
  ev_status :: sosStatus
  ev_triggerType :: triggerType
  ev_initialLat :: decimalText
  ev_initialLng :: decimalText
  ev_notificationsSent :: int
  ev_trackingStartedAt :: "date option"
  ev_resolvedAt :: "date option"
  ev_createdAt :: date

record insertSosEvent =
  iev_eventId :: string
  iev_deviceId :: string
  iev_status :: sosStatus
  iev_triggerType :: triggerType
  iev_initialLat :: decimalText
  iev_initialLng :: decimalText
  iev_trackingStartedAt :: date

record sosEventPatch =
  pev_status :: "sosStatus option"
  pev_resolvedAt :: "date option"
  pev_notificationsSent :: "int option"

record locationHistory =
  loc_eventId :: string
  loc_deviceId :: string
  loc_latitude :: decimalText
  loc_longitude :: decimalText
  loc_accuracy :: "int option"
  loc_createdAt :: date

text \<open>The object handed to \<open>addLocationHistory\<close>; no caller sets \<open>createdAt\<close>.\<close>

record insertLocationHistory =
  iloc_eventId :: string
  iloc_deviceId :: string
  iloc_latitude :: decimalText
  iloc_longitude :: decimalText
  iloc_accuracy :: "number option"
  iloc_createdAt :: "date option"

record notification =
  nt_notificationId :: string
  nt_eventId :: string
  nt_contactId :: int
  nt_type :: notificationType
  nt_recipient :: string
  nt_status :: notificationStatus
  nt_externalId :: "string option"
  nt_errorMessage :: "string option"
  nt_sentAt :: "date option"
  nt_createdAt :: date

record insertNotification =
  int_notificationId :: string
  int_eventId :: string
  int_contactId :: int
  int_type :: notificationType
  int_recipient :: string
  int_status :: notificationStatus

record notificationPatch =
  pnt_status :: "notificationStatus option"
  pnt_externalId :: "string option"
  pnt_errorMessage :: "string option"
  pnt_sentAt :: "date option"

record offlineSosQueue =
  q_queueId :: string
  q_deviceId :: string
  q_latitude :: decimalText
  q_longitude :: decimalText
  q_status :: queueStatus
  q_retryCount :: int
  q_eventId :: "string option"
  q_createdAt :: date
  q_syncedAt :: "date option"

record insertOfflineSosQueue =
  iq_queueId :: string
  iq_deviceId :: string
  iq_latitude :: decimalText
  iq_longitude :: decimalText
  iq_status :: queueStatus

record offlineSosQueuePatch =
  pq_status :: "queueStatus option"
  pq_eventId :: "string option"
  pq_syncedAt :: "date option"

record sosRateLimit =
  rl_deviceId :: string
  rl_sosCount :: int
  rl_windowStart :: date
  rl_isBlocked :: bool
  rl_blockedUntil :: "date option"

text \<open>
  A session of the tracking service. \<open>subscribers\<close> is a \<open>Set<string>\<close>, kept as the list
  of its members in insertion order.
\<close>

record trackingSession =
  ts_eventId :: string
  ts_deviceId :: string
  ts_subscribers :: "string list"
  ts_startedAt :: date

subsection \<open>Columns that hold coordinates\<close>

text \<open>
  The coordinate columns as the migration \<open>drizzle/0001_awesome_cerebro.sql\<close> and
  \<open>drizzle/schema.ts\<close> declare them: \<open>decimal(precision, scale)\<close>.
\<close>

record decimalType =
  dec_precision :: nat
  dec_scale :: nat

datatype coordinateTable = Devices | SosEvents | LocationHistory | OfflineSosQueue

fun latitudeColumn :: "coordinateTable \<Rightarrow> string \<times> decimalType" where
  "latitudeColumn Devices = (''lastLocationLat'', \<lparr>dec_precision = 10, dec_scale = 8\<rparr>)"
| "latitudeColumn SosEvents = (''initialLat'', \<lparr>dec_precision = 10, dec_scale = 8\<rparr>)"
| "latitudeColumn LocationHistory = (''latitude'', \<lparr>dec_precision = 10, dec_scale = 8\<rparr>)"
| "latitudeColumn OfflineSosQueue = (''latitude'', \<lparr>dec_precision = 10, dec_scale = 8\<rparr>)"

fun longitudeColumn :: "coordinateTable \<Rightarrow> string \<times> decimalType" where
  "longitudeColumn Devices = (''lastLocationLng'', \<lparr>dec_precision = 11, dec_scale = 8\<rparr>)"
| "longitudeColumn SosEvents = (''initialLng'', \<lparr>dec_precision = 11, dec_scale = 8\<rparr>)"
| "longitudeColumn LocationHistory = (''longitude'', \<lparr>dec_precision = 11, dec_scale = 8\<rparr>)"
| "longitudeColumn OfflineSosQueue = (''longitude'', \<lparr>dec_precision = 11, dec_scale = 8\<rparr>)"

text \<open>
  The fixed-point format: a \<open>decimal(p, s)\<close> column holds the numbers of at most \<open>p\<close>
  decimal digits, \<open>s\<close> of them after the point.
\<close>

definition fractionDigits :: "number \<Rightarrow> nat \<Rightarrow> bool" where
  "fractionDigits x k = (of_int \<lfloor>x * 10 ^ k\<rfloor> = x * 10 ^ k)"

definition storable :: "decimalType \<Rightarrow> number \<Rightarrow> bool" where
  "storable t x = (fractionDigits x (dec_scale t) \<and> \<bar>x * 10 ^ dec_scale t\<bar> < 10 ^ dec_precision t)"

text \<open>
  What the column does with a value it is sent (MySQL in its default strict mode): the
  value is rounded to the scale of the column, half away from zero, and the statement
  fails when the rounded value has too many digits before the point.
\<close>

definition roundHalfAway :: "number \<Rightarrow> int" where
  "roundHalfAway x = (if 0 \<le> x then \<lfloor>x + 1 / 2\<rfloor> else - \<lfloor>- x + 1 / 2\<rfloor>)"

definition roundTo :: "nat \<Rightarrow> number \<Rightarrow> number" where
  "roundTo s x = of_int (roundHalfAway (x * 10 ^ s)) / 10 ^ s"

definition decimalColumn :: "decimalType \<Rightarrow> decimalText \<Rightarrow> error + decimalText" where
  "decimalColumn t v =
     (case v of DecimalText x \<Rightarrow>
        if \<bar>roundHalfAway (x * 10 ^ dec_scale t)\<bar> < 10 ^ dec_precision t
        then Inr (DecimalText (roundTo (dec_scale t) x))
        else Inl (DriverError ''Out of range value''))"

definition optionalDecimalColumn ::
  "decimalType \<Rightarrow> decimalText option \<Rightarrow> error + decimalText option" where
  "optionalDecimalColumn t v =
     (case v of
        None \<Rightarrow> Inr None
      | Some x \<Rightarrow> (case decimalColumn t x of Inl e \<Rightarrow> Inl e | Inr y \<Rightarrow> Inr (Some y)))"

text \<open>
  An \<open>int\<close> column: a number that is not whole is rounded to the nearest whole number, and
  one that is then out of the range of a signed 32-bit integer is rejected.
\<close>

definition intColumn :: "number option \<Rightarrow> error + int option" where
  "intColumn v =
     (case v of
        None \<Rightarrow> Inr None
      | Some x \<Rightarrow>
          if - 2147483648 \<le> roundHalfAway x \<and> roundHalfAway x \<le> 2147483647
          then Inr (Some (roundHalfAway x))
          else Inl (DriverError ''Out of range value''))"

subsection \<open>The world: the database and the environment\<close>

text \<open>
  \<open>dbReady\<close> is the outcome of \<open>getDb()\<close>: whether the module variable \<open>_db\<close> holds a
  drizzle instance. \<open>faults\<close> scripts the database calls still to come: the head says
  whether the next statement throws (an empty script is a database that answers every
  statement). \<open>nanoidSeq\<close> and \<open>nanoidCount\<close> are the identifiers \<open>nanoid()\<close> hands out,
  \<open>clock\<close> is what \<open>new Date()\<close> reads, \<open>contactAutoIncrement\<close> is the next \<open>id\<close> of the
  emergencyContacts table. \<open>activeSessions\<close> is the module variable of the
  tracking service, a \<open>Map<string, TrackingSession>\<close>, kept as its entries in insertion
  order.
\<close>

record world =
  dbReady :: bool
  devices :: "device list"
  emergencyContacts :: "emergencyContact list"
  sosEvents :: "sosEvent list"
  locationHistoryTable :: "locationHistory list"
  notifications :: "notification list"
  offlineSosQueueTable :: "offlineSosQueue list"
  sosRateLimitTable :: "sosRateLimit list"
  contactAutoIncrement :: int
  faults :: "bool list"
  nanoidSeq :: "nat \<Rightarrow> string"
  nanoidCount :: nat
  clock :: date
  activeSessions :: "(string \<times> trackingSession) list"

type_synonym 'a io = "world \<Rightarrow> (error + 'a) \<times> world"

definition io_return :: "'a \<Rightarrow> 'a io" where
  "io_return x w = (Inr x, w)"

definition io_throw :: "error \<Rightarrow> 'a io" where
  "io_throw e w = (Inl e, w)"

text \<open>\<open>const x = await m; f x\<close>\<close>

definition io_bind :: "'a io \<Rightarrow> ('a \<Rightarrow> 'b io) \<Rightarrow> 'b io" where
  "io_bind m f w = (case m w of (Inl e, w') \<Rightarrow> (Inl e, w') | (Inr x, w') \<Rightarrow> f x w')"

text \<open>\<open>try { m } catch (error) { h error }\<close>\<close>

definition io_catch :: "'a io \<Rightarrow> (error \<Rightarrow> 'a io) \<Rightarrow> 'a io" where
  "io_catch m h w = (case m w of (Inl e, w') \<Rightarrow> h e w' | (Inr x, w') \<Rightarrow> (Inr x, w'))"

definition newDate :: "date io" where
  "newDate w = (Inr (clock w), w)"

definition nanoid :: "string io" where
  "nanoid w = (Inr (nanoidSeq w (nanoidCount w)), w\<lparr>nanoidCount := Suc (nanoidCount w)\<rparr>)"

definition getDb :: "bool io" where
  "getDb w = (Inr (dbReady w), w)"

subsection \<open>Statements\<close>

text \<open>Every statement sent to the database consumes one entry of the fault script.\<close>

definition execute :: "unit io" where
  "execute w =
     (case faults w of
        [] \<Rightarrow> (Inr (), w)
      | f # fs \<Rightarrow> (if f then Inl (DriverError ''query failed'') else Inr (), w\<lparr>faults := fs\<rparr>))"

text \<open>\<open>db.select().from(table).where(cond)\<close>\<close>

definition db_select :: "(world \<Rightarrow> 'r list) \<Rightarrow> ('r \<Rightarrow> bool) \<Rightarrow> 'r list io" where
  "db_select table cond = io_bind execute (\<lambda>_ w. (Inr (filter cond (table w)), w))"

text \<open>
  \<open>db.insert(table).values(row)\<close>. \<open>stored\<close> is the row as the columns keep it, or the error
  of a value that a column rejects; \<open>clash\<close> is the table's UNIQUE constraint: the
  statement throws when a stored row has the key of the new one.
\<close>

definition db_insert ::
  "(world \<Rightarrow> 'r list) \<Rightarrow> (('r list \<Rightarrow> 'r list) \<Rightarrow> world \<Rightarrow> world) \<Rightarrow> ('r \<Rightarrow> 'r \<Rightarrow> bool)
     \<Rightarrow> error + 'r \<Rightarrow> unit io" where
  "db_insert table table_update clash stored =
     io_bind execute (\<lambda>_ w.
       case stored of
         Inl e \<Rightarrow> (Inl e, w)
       | Inr row \<Rightarrow>
           if list_ex (clash row) (table w) then (Inl (DriverError ''Duplicate entry''), w)
           else (Inr (), table_update (\<lambda>rows. rows @ [row]) w))"

text \<open>
  \<open>db.update(table).set(updates).where(cond)\<close>. \<open>stored\<close> is the change as the columns keep
  it, or the error of a value that a column rejects; such a value fails the statement
  when there is a row for it to be written to.
\<close>

definition db_update ::
  "(world \<Rightarrow> 'r list) \<Rightarrow> (('r list \<Rightarrow> 'r list) \<Rightarrow> world \<Rightarrow> world) \<Rightarrow> ('r \<Rightarrow> bool)
     \<Rightarrow> error + ('r \<Rightarrow> 'r) \<Rightarrow> unit io" where
  "db_update table table_update cond stored =
     io_bind execute (\<lambda>_ w.
       case stored of
         Inr change \<Rightarrow> (Inr (), table_update (map (\<lambda>r. if cond r then change r else r)) w)
       | Inl e \<Rightarrow> if list_ex cond (table w) then (Inl e, w) else (Inr (), w))"

text \<open>
  \<open>set(updates)\<close> with no value in \<open>updates\<close>: the query builder throws before a statement
  is sent.
\<close>

definition noValuesToSet :: "'a io" where
  "noValuesToSet = io_throw (JsError ''No values to set'')"

text \<open>\<open>db.delete(table).where(cond)\<close>\<close>

definition db_delete ::
  "(('r list \<Rightarrow> 'r list) \<Rightarrow> world \<Rightarrow> world) \<Rightarrow> ('r \<Rightarrow> bool) \<Rightarrow> unit io" where
  "db_delete table_update cond =
     io_bind execute (\<lambda>_ w. (Inr (), table_update (filter (\<lambda>r. \<not> cond r)) w))"

text \<open>\<open>result.length > 0 ? result[0] : undefined\<close>\<close>

definition firstRow :: "'r list \<Rightarrow> 'r option" where
  "firstRow result = (case result of [] \<Rightarrow> None | r # _ \<Rightarrow> Some r)"

text \<open>The column default \<open>defaultNow()\<close> of \<open>createdAt\<close>.\<close>

definition defaultNow :: "date io" where
  "defaultNow w = (Inr (clock w), w)"

text \<open>A key of a \<open>Partial<...>\<close> object that is absent leaves the column as it is.\<close>

definition orKeep :: "'a option \<Rightarrow> 'a \<Rightarrow> 'a" where
  "orKeep v old = (case v of None \<Rightarrow> old | Some x \<Rightarrow> x)"

definition orKeepOpt :: "'a option \<Rightarrow> 'a option \<Rightarrow> 'a option" where
  "orKeepOpt v old = (case v of None \<Rightarrow> old | Some x \<Rightarrow> Some x)"

subsection \<open>\<open>server/db.ts\<close>\<close>

definition getDeviceByDeviceId :: "string \<Rightarrow> device option io" where
  "getDeviceByDeviceId deviceId =
     io_bind getDb (\<lambda>db.
       if \<not> db then io_return None
       else io_bind (db_select devices (\<lambda>d. dev_deviceId d = deviceId)) (\<lambda>result.
         io_return (firstRow (take 1 result))))"

text \<open>The row an insert stores: the columns the object leaves out take their defaults.\<close>

definition deviceRow :: "insertDevice \<Rightarrow> date \<Rightarrow> device" where
  "deviceRow device createdAt =
     \<lparr>dev_deviceId = idev_deviceId device, dev_name = idev_name device,
      dev_phone = idev_phone device, dev_email = idev_email device,
      dev_isActive = idev_isActive device, dev_lastLocationLat = None,
      dev_lastLocationLng = None, dev_lastLocationTimestamp = None,
      dev_createdAt = createdAt\<rparr>"

definition createDevice :: "insertDevice \<Rightarrow> device option io" where
  "createDevice device =
     io_bind getDb (\<lambda>db.
       if \<not> db then io_return None
       else io_bind defaultNow (\<lambda>createdAt.
         io_bind (db_insert devices devices_update (\<lambda>new old. dev_deviceId old = dev_deviceId new)
                    (Inr (deviceRow device createdAt))) (\<lambda>result.
           getDeviceByDeviceId (idev_deviceId device))))"

definition setDevice :: "devicePatch \<Rightarrow> device \<Rightarrow> device" where
  "setDevice updates d =
     d\<lparr>dev_name := orKeep (pdev_name updates) (dev_name d),
       dev_phone := orKeep (pdev_phone updates) (dev_phone d),
       dev_email := orKeepOpt (pdev_email updates) (dev_email d),
       dev_lastLocationLat := orKeepOpt (pdev_lastLocationLat updates) (dev_lastLocationLat d),
       dev_lastLocationLng := orKeepOpt (pdev_lastLocationLng updates) (dev_lastLocationLng d),
       dev_lastLocationTimestamp :=
         orKeepOpt (pdev_lastLocationTimestamp updates) (dev_lastLocationTimestamp d)\<rparr>"

text \<open>The patch as the columns of the devices table keep it.\<close>

definition storedDevicePatch :: "devicePatch \<Rightarrow> error + (device \<Rightarrow> device)" where
  "storedDevicePatch updates =
     (case optionalDecimalColumn (snd (latitudeColumn Devices)) (pdev_lastLocationLat updates) of
        Inl e \<Rightarrow> Inl e
      | Inr lat \<Rightarrow>
          (case optionalDecimalColumn (snd (longitudeColumn Devices))
                  (pdev_lastLocationLng updates) of
             Inl e \<Rightarrow> Inl e
           | Inr lng \<Rightarrow>
               Inr (setDevice (updates\<lparr>pdev_lastLocationLat := lat,
                                         pdev_lastLocationLng := lng\<rparr>))))"

definition devicePatchEmpty :: "devicePatch \<Rightarrow> bool" where
  "devicePatchEmpty updates =
     (pdev_name updates = None \<and> pdev_phone updates = None \<and> pdev_email updates = None
      \<and> pdev_lastLocationLat updates = None \<and> pdev_lastLocationLng updates = None
      \<and> pdev_lastLocationTimestamp updates = None)"

definition updateDevice :: "string \<Rightarrow> devicePatch \<Rightarrow> device option io" where
  "updateDevice deviceId updates =
     io_bind getDb (\<lambda>db.
       if \<not> db then io_return None
       else if devicePatchEmpty updates then noValuesToSet
       else io_bind (db_update devices devices_update (\<lambda>d. dev_deviceId d = deviceId)
                      (storedDevicePatch updates))
              (\<lambda>_. getDeviceByDeviceId deviceId))"

text \<open>\<open>orderBy(asc(priority))\<close>\<close>

definition getEmergencyContacts :: "string \<Rightarrow> emergencyContact list io" where
  "getEmergencyContacts deviceId =
     io_bind getDb (\<lambda>db.
       if \<not> db then io_return []
       else io_bind (db_select emergencyContacts (\<lambda>c. ec_deviceId c = deviceId)) (\<lambda>result.
         io_return (sort_key ec_priority result)))"

text \<open>\<open>AUTO_INCREMENT\<close> of \<open>emergencyContacts.id\<close>.\<close>

definition autoIncrement :: "int io" where
  "autoIncrement w =
     (Inr (contactAutoIncrement w), w\<lparr>contactAutoIncrement := contactAutoIncrement w + 1\<rparr>)"

definition contactRow :: "insertEmergencyContact \<Rightarrow> int \<Rightarrow> emergencyContact" where
  "contactRow contact id' =
     \<lparr>ec_id = id', ec_deviceId = iec_deviceId contact, ec_name = iec_name contact,
      ec_phone = iec_phone contact, ec_email = iec_email contact,
      ec_priority = iec_priority contact, ec_isActive = iec_isActive contact\<rparr>"

text \<open>\<open>contacts.find(c => c.name === contact.name && c.phone === contact.phone)\<close>\<close>

definition createEmergencyContact :: "insertEmergencyContact \<Rightarrow> emergencyContact option io" where
  "createEmergencyContact contact =
     io_bind getDb (\<lambda>db.
       if \<not> db then io_return None
       else io_bind autoIncrement (\<lambda>id'.
         io_bind (db_insert emergencyContacts emergencyContacts_update
                    (\<lambda>new old. ec_id old = ec_id new) (Inr (contactRow contact id'))) (\<lambda>result.
           io_bind (getEmergencyContacts (iec_deviceId contact)) (\<lambda>contacts.
             io_return (find (\<lambda>c. ec_name c = iec_name contact \<and> ec_phone c = iec_phone contact)
                          contacts)))))"

definition setContact :: "contactPatch \<Rightarrow> emergencyContact \<Rightarrow> emergencyContact" where
  "setContact updates c =
     c\<lparr>ec_name := orKeep (pec_name updates) (ec_name c),
       ec_phone := orKeep (pec_phone updates) (ec_phone c),
       ec_email := orKeepOpt (pec_email updates) (ec_email c),
       ec_priority := orKeep (pec_priority updates) (ec_priority c)\<rparr>"

definition contactPatchEmpty :: "contactPatch \<Rightarrow> bool" where
  "contactPatchEmpty updates =
     (pec_name updates = None \<and> pec_phone updates = None \<and> pec_email updates = None
      \<and> pec_priority updates = None)"

definition updateEmergencyContact :: "number \<Rightarrow> contactPatch \<Rightarrow> emergencyContact option io" where
  "updateEmergencyContact id' updates =
     io_bind getDb (\<lambda>db.
       if \<not> db then io_return None
       else if contactPatchEmpty updates then noValuesToSet
       else io_bind (db_update emergencyContacts emergencyContacts_update
                      (\<lambda>c. of_int (ec_id c) = id') (Inr (setContact updates))) (\<lambda>_.
         io_bind (db_select emergencyContacts (\<lambda>c. of_int (ec_id c) = id')) (\<lambda>result.
           io_return (firstRow (take 1 result)))))"

definition deleteEmergencyContact :: "number \<Rightarrow> bool io" where
  "deleteEmergencyContact id' =
     io_bind getDb (\<lambda>db.
       if \<not> db then io_return False
       else io_bind (db_delete emergencyContacts_update (\<lambda>c. of_int (ec_id c) = id')) (\<lambda>_.
         io_return True))"

definition getSosEventByEventId :: "string \<Rightarrow> sosEvent option io" where
  "getSosEventByEventId eventId =
     io_bind getDb (\<lambda>db.
       if \<not> db then io_return None
       else io_bind (db_select sosEvents (\<lambda>e. ev_eventId e = eventId)) (\<lambda>result.
         io_return (firstRow (take 1 result))))"

definition sosEventRow :: "insertSosEvent \<Rightarrow> date \<Rightarrow> error + sosEvent" where
  "sosEventRow event createdAt =
     (case decimalColumn (snd (latitudeColumn SosEvents)) (iev_initialLat event) of
        Inl e \<Rightarrow> Inl e
      | Inr lat \<Rightarrow>
          (case decimalColumn (snd (longitudeColumn SosEvents)) (iev_initialLng event) of
             Inl e \<Rightarrow> Inl e
           | Inr lng \<Rightarrow>
               Inr \<lparr>ev_eventId = iev_eventId event, ev_deviceId = iev_deviceId event,
                    ev_status = iev_status event, ev_triggerType = iev_triggerType event,
                    ev_initialLat = lat, ev_initialLng = lng, ev_notificationsSent = 0,
                    ev_trackingStartedAt = Some (iev_trackingStartedAt event),
                    ev_resolvedAt = None, ev_createdAt = createdAt\<rparr>))"

text \<open>\<open>if (!result) return undefined\<close> never fires: the insert returns a result or throws.\<close>

definition createSosEvent :: "insertSosEvent \<Rightarrow> sosEvent option io" where
  "createSosEvent event =
     io_bind getDb (\<lambda>db.
       if \<not> db then io_return None
       else io_bind defaultNow (\<lambda>createdAt.
         io_bind (db_insert sosEvents sosEvents_update (\<lambda>new old. ev_eventId old = ev_eventId new)
                    (sosEventRow event createdAt)) (\<lambda>result.
           getSosEventByEventId (iev_eventId event))))"

text \<open>\<open>orderBy(desc(createdAt))\<close>\<close>

definition getActiveSosEvents :: "string \<Rightarrow> sosEvent list io" where
  "getActiveSosEvents deviceId =
     io_bind getDb (\<lambda>db.
       if \<not> db then io_return []
       else io_bind (db_select sosEvents (\<lambda>e. ev_deviceId e = deviceId \<and> ev_status e = Active))
              (\<lambda>result. io_return (sort_key (\<lambda>e. - ev_createdAt e) result)))"

definition setSosEvent :: "sosEventPatch \<Rightarrow> sosEvent \<Rightarrow> sosEvent" where
  "setSosEvent updates e =
     e\<lparr>ev_status := orKeep (pev_status updates) (ev_status e),
       ev_resolvedAt := orKeepOpt (pev_resolvedAt updates) (ev_resolvedAt e),
       ev_notificationsSent := orKeep (pev_notificationsSent updates) (ev_notificationsSent e)\<rparr>"

definition sosEventPatchEmpty :: "sosEventPatch \<Rightarrow> bool" where
  "sosEventPatchEmpty updates =
     (pev_status updates = None \<and> pev_resolvedAt updates = None
      \<and> pev_notificationsSent updates = None)"

definition updateSosEvent :: "string \<Rightarrow> sosEventPatch \<Rightarrow> sosEvent option io" where
  "updateSosEvent eventId updates =
     io_bind getDb (\<lambda>db.
       if \<not> db then io_return None
       else if sosEventPatchEmpty updates then noValuesToSet
       else io_bind (db_update sosEvents sosEvents_update (\<lambda>e. ev_eventId e = eventId)
                      (Inr (setSosEvent updates)))
              (\<lambda>_. getSosEventByEventId eventId))"

definition locationRow :: "insertLocationHistory \<Rightarrow> date \<Rightarrow> error + locationHistory" where
  "locationRow location createdAt =
     (case decimalColumn (snd (latitudeColumn LocationHistory)) (iloc_latitude location) of
        Inl e \<Rightarrow> Inl e
      | Inr lat \<Rightarrow>
          (case decimalColumn (snd (longitudeColumn LocationHistory)) (iloc_longitude location) of
             Inl e \<Rightarrow> Inl e
           | Inr lng \<Rightarrow>
               (case intColumn (iloc_accuracy location) of
                  Inl e \<Rightarrow> Inl e
                | Inr accuracy \<Rightarrow>
                    Inr \<lparr>loc_eventId = iloc_eventId location,
                         loc_deviceId = iloc_deviceId location,
                         loc_latitude = lat, loc_longitude = lng, loc_accuracy = accuracy,
                         loc_createdAt = orKeep (iloc_createdAt location) createdAt\<rparr>)))"

text \<open>Returns the object it was given (\<open>location as LocationHistory\<close>), not the stored row.\<close>

definition addLocationHistory :: "insertLocationHistory \<Rightarrow> insertLocationHistory option io" where
  "addLocationHistory location =
     io_bind getDb (\<lambda>db.
       if \<not> db then io_return None
       else io_bind defaultNow (\<lambda>createdAt.
         io_bind (db_insert locationHistoryTable locationHistoryTable_update (\<lambda>new old. False)
                    (locationRow location createdAt)) (\<lambda>result.
           io_return (Some location))))"

definition getLocationHistory :: "string \<Rightarrow> locationHistory list io" where
  "getLocationHistory eventId =
     io_bind getDb (\<lambda>db.
       if \<not> db then io_return []
       else io_bind (db_select locationHistoryTable (\<lambda>l. loc_eventId l = eventId)) (\<lambda>result.
         io_return (sort_key (\<lambda>l. - loc_createdAt l) result)))"

definition notificationRow :: "insertNotification \<Rightarrow> date \<Rightarrow> notification" where
  "notificationRow n createdAt =
     \<lparr>nt_notificationId = int_notificationId n, nt_eventId = int_eventId n,
      nt_contactId = int_contactId n, nt_type = int_type n,
      nt_recipient = int_recipient n, nt_status = int_status n,
      nt_externalId = None, nt_errorMessage = None, nt_sentAt = None,
      nt_createdAt = createdAt\<rparr>"

definition createNotification :: "insertNotification \<Rightarrow> notification option io" where
  "createNotification n =
     io_bind getDb (\<lambda>db.
       if \<not> db then io_return None
       else io_bind defaultNow (\<lambda>createdAt.
         io_bind (db_insert notifications notifications_update
                    (\<lambda>new old. nt_notificationId old = nt_notificationId new)
                    (Inr (notificationRow n createdAt))) (\<lambda>result.
           io_bind (db_select notifications (\<lambda>r. nt_notificationId r = int_notificationId n))
             (\<lambda>notif. io_return (firstRow (take 1 notif))))))"

definition setNotification :: "notificationPatch \<Rightarrow> notification \<Rightarrow> notification" where
  "setNotification updates n =
     n\<lparr>nt_status := orKeep (pnt_status updates) (nt_status n),
       nt_externalId := orKeepOpt (pnt_externalId updates) (nt_externalId n),
       nt_errorMessage := orKeepOpt (pnt_errorMessage updates) (nt_errorMessage n),
       nt_sentAt := orKeepOpt (pnt_sentAt updates) (nt_sentAt n)\<rparr>"

definition notificationPatchEmpty :: "notificationPatch \<Rightarrow> bool" where
  "notificationPatchEmpty updates =
     (pnt_status updates = None \<and> pnt_externalId updates = None
      \<and> pnt_errorMessage updates = None \<and> pnt_sentAt updates = None)"

definition updateNotification :: "string \<Rightarrow> notificationPatch \<Rightarrow> notification option io" where
  "updateNotification notificationId updates =
     io_bind getDb (\<lambda>db.
       if \<not> db then io_return None
       else if notificationPatchEmpty updates then noValuesToSet
       else io_bind (db_update notifications notifications_update
                      (\<lambda>n. nt_notificationId n = notificationId)
                      (Inr (setNotification updates))) (\<lambda>_.
         io_bind (db_select notifications (\<lambda>n. nt_notificationId n = notificationId)) (\<lambda>result.
           io_return (firstRow (take 1 result)))))"

definition queueRow :: "insertOfflineSosQueue \<Rightarrow> date \<Rightarrow> error + offlineSosQueue" where
  "queueRow request createdAt =
     (case decimalColumn (snd (latitudeColumn OfflineSosQueue)) (iq_latitude request) of
        Inl e \<Rightarrow> Inl e
      | Inr lat \<Rightarrow>
          (case decimalColumn (snd (longitudeColumn OfflineSosQueue)) (iq_longitude request) of
             Inl e \<Rightarrow> Inl e
           | Inr lng \<Rightarrow>
               Inr \<lparr>q_queueId = iq_queueId request, q_deviceId = iq_deviceId request,
                    q_latitude = lat, q_longitude = lng, q_status = iq_status request,
                    q_retryCount = 0, q_eventId = None, q_createdAt = createdAt,
                    q_syncedAt = None\<rparr>))"

definition addOfflineSosRequest :: "insertOfflineSosQueue \<Rightarrow> offlineSosQueue option io" where
  "addOfflineSosRequest request =
     io_bind getDb (\<lambda>db.
       if \<not> db then io_return None
       else io_bind defaultNow (\<lambda>createdAt.
         io_bind (db_insert offlineSosQueueTable offlineSosQueueTable_update
                    (\<lambda>new old. q_queueId old = q_queueId new) (queueRow request createdAt))
           (\<lambda>result.
             io_bind (db_select offlineSosQueueTable (\<lambda>q. q_queueId q = iq_queueId request))
               (\<lambda>queued. io_return (firstRow (take 1 queued))))))"

text \<open>\<open>orderBy(asc(createdAt))\<close>\<close>

definition getPendingOfflineSosRequests :: "string \<Rightarrow> offlineSosQueue list io" where
  "getPendingOfflineSosRequests deviceId =
     io_bind getDb (\<lambda>db.
       if \<not> db then io_return []
       else io_bind (db_select offlineSosQueueTable
                      (\<lambda>q. q_deviceId q = deviceId \<and> q_status q = QueuePending)) (\<lambda>result.
         io_return (sort_key q_createdAt result)))"

definition setQueued :: "offlineSosQueuePatch \<Rightarrow> offlineSosQueue \<Rightarrow> offlineSosQueue" where
  "setQueued updates q =
     q\<lparr>q_status := orKeep (pq_status updates) (q_status q),
       q_eventId := orKeepOpt (pq_eventId updates) (q_eventId q),
       q_syncedAt := orKeepOpt (pq_syncedAt updates) (q_syncedAt q)\<rparr>"

definition offlineSosQueuePatchEmpty :: "offlineSosQueuePatch \<Rightarrow> bool" where
  "offlineSosQueuePatchEmpty updates =
     (pq_status updates = None \<and> pq_eventId updates = None \<and> pq_syncedAt updates = None)"

definition updateOfflineSosRequest ::
  "string \<Rightarrow> offlineSosQueuePatch \<Rightarrow> offlineSosQueue option io" where
  "updateOfflineSosRequest queueId updates =
     io_bind getDb (\<lambda>db.
       if \<not> db then io_return None
       else if offlineSosQueuePatchEmpty updates then noValuesToSet
       else io_bind (db_update offlineSosQueueTable offlineSosQueueTable_update
                      (\<lambda>q. q_queueId q = queueId) (Inr (setQueued updates))) (\<lambda>_.
         io_bind (db_select offlineSosQueueTable (\<lambda>q. q_queueId q = queueId)) (\<lambda>result.
           io_return (firstRow (take 1 result)))))"

definition getSosRateLimit :: "string \<Rightarrow> sosRateLimit option io" where
  "getSosRateLimit deviceId =
     io_bind getDb (\<lambda>db.
       if \<not> db then io_return None
       else io_bind (db_select sosRateLimitTable (\<lambda>r. rl_deviceId r = deviceId)) (\<lambda>result.
         io_return (firstRow (take 1 result))))"

subsection \<open>\<open>server/routers.ts\<close>\<close>

text \<open>
  A procedure of the router. What its resolver throws reaches the caller as a
  \<open>TRPCError\<close>: an error of another kind is wrapped, with the code
  \<open>INTERNAL_SERVER_ERROR\<close> and its own message (the tRPC library does so).
\<close>

fun toTRPCError :: "error \<Rightarrow> error" where
  "toTRPCError (TRPCError c m) = TRPCError c m"
| "toTRPCError (JsError m) = TRPCError INTERNAL_SERVER_ERROR m"
| "toTRPCError (DriverError m) = TRPCError INTERNAL_SERVER_ERROR m"

definition procedure :: "'a io \<Rightarrow> 'a io" where
  "procedure resolver = io_catch resolver (\<lambda>error. io_throw (toTRPCError error))"

record registerInput =
  ri_deviceId :: string
  ri_name :: string
  ri_phone :: string
  ri_email :: "string option"

text \<open>
  The input schema of \<open>device.register\<close>. The pattern behind \<open>z.string().email()\<close> belongs
  to the validation library and is a parameter.
\<close>

definition registerInputValid :: "(string \<Rightarrow> bool) \<Rightarrow> registerInput \<Rightarrow> bool" where
  "registerInputValid isEmail input =
     (1 \<le> length (ri_deviceId input) \<and> 1 \<le> length (ri_name input)
      \<and> 10 \<le> length (ri_phone input)
      \<and> (case ri_email input of None \<Rightarrow> True | Some e \<Rightarrow> isEmail e))"

text \<open>The mutation of \<open>device.register\<close>.\<close>

definition register :: "registerInput \<Rightarrow> device io" where
  "register input =
     io_bind (getDeviceByDeviceId (ri_deviceId input)) (\<lambda>existing.
       case existing of
         Some d \<Rightarrow> io_return d
       | None \<Rightarrow>
           io_bind (createDevice \<lparr>idev_deviceId = ri_deviceId input, idev_name = ri_name input,
                                   idev_phone = ri_phone input, idev_email = ri_email input,
                                   idev_isActive = True\<rparr>) (\<lambda>device.
             case device of
               None \<Rightarrow> io_throw (TRPCError INTERNAL_SERVER_ERROR ''Failed to create device'')
             | Some d \<Rightarrow> io_return d))"

text \<open>
  The procedure: the input is parsed against the schema before the mutation runs. The
  message of the error for a rejected input is the report of the validation library,
  abbreviated here.
\<close>

definition device_register :: "(string \<Rightarrow> bool) \<Rightarrow> registerInput \<Rightarrow> device io" where
  "device_register isEmail input =
     procedure
       (if registerInputValid isEmail input then register input
        else io_throw (TRPCError BAD_REQUEST ''Invalid input''))"

definition device_getDevice :: "string \<Rightarrow> device option io" where
  "device_getDevice deviceId =
     procedure (getDeviceByDeviceId deviceId)"

record updateDeviceInput =
  ud_deviceId :: string
  ud_name :: "string option"
  ud_phone :: "string option"
  ud_email :: "string option"

definition optionalEmailValid :: "(string \<Rightarrow> bool) \<Rightarrow> string option \<Rightarrow> bool" where
  "optionalEmailValid isEmail email = (case email of None \<Rightarrow> True | Some e \<Rightarrow> isEmail e)"

definition device_updateDevice :: "(string \<Rightarrow> bool) \<Rightarrow> updateDeviceInput \<Rightarrow> device io" where
  "device_updateDevice isEmail input =
     procedure
       (if \<not> optionalEmailValid isEmail (ud_email input)
        then io_throw (TRPCError BAD_REQUEST ''Invalid input'')
        else
          io_bind (updateDevice (ud_deviceId input)
                     \<lparr>pdev_name = ud_name input, pdev_phone = ud_phone input,
                      pdev_email = ud_email input, pdev_lastLocationLat = None,
                      pdev_lastLocationLng = None, pdev_lastLocationTimestamp = None\<rparr>) (\<lambda>device.
            case device of
              None \<Rightarrow> io_throw (TRPCError NOT_FOUND ''Device not found'')
            | Some d \<Rightarrow> io_return d))"

definition contacts_list :: "string \<Rightarrow> emergencyContact list io" where
  "contacts_list deviceId =
     procedure (getEmergencyContacts deviceId)"

text \<open>The input of \<open>contacts.add\<close>, with the default of \<open>priority\<close> filled in.\<close>

record addContactInput =
  ac_deviceId :: string
  ac_name :: string
  ac_phone :: string
  ac_email :: "string option"
  ac_priority :: int

definition contacts_add :: "(string \<Rightarrow> bool) \<Rightarrow> addContactInput \<Rightarrow> emergencyContact io" where
  "contacts_add isEmail input =
     procedure
       (if \<not> (1 \<le> length (ac_name input) \<and> 10 \<le> length (ac_phone input)
               \<and> optionalEmailValid isEmail (ac_email input) \<and> 0 \<le> ac_priority input)
        then io_throw (TRPCError BAD_REQUEST ''Invalid input'')
        else
          io_bind (createEmergencyContact
                     \<lparr>iec_deviceId = ac_deviceId input, iec_name = ac_name input,
                      iec_phone = ac_phone input, iec_email = ac_email input,
                      iec_priority = ac_priority input, iec_isActive = True\<rparr>) (\<lambda>contact.
            case contact of
              None \<Rightarrow> io_throw (TRPCError INTERNAL_SERVER_ERROR ''Failed to create contact'')
            | Some c \<Rightarrow> io_return c))"

record updateContactInput =
  uc_id :: number
  uc_name :: "string option"
  uc_phone :: "string option"
  uc_email :: "string option"
  uc_priority :: "int option"

definition contacts_update ::
  "(string \<Rightarrow> bool) \<Rightarrow> updateContactInput \<Rightarrow> emergencyContact io" where
  "contacts_update isEmail input =
     procedure
       (if \<not> optionalEmailValid isEmail (uc_email input)
        then io_throw (TRPCError BAD_REQUEST ''Invalid input'')
        else
          io_bind (updateEmergencyContact (uc_id input)
                     \<lparr>pec_name = uc_name input, pec_phone = uc_phone input,
                      pec_email = uc_email input, pec_priority = uc_priority input\<rparr>) (\<lambda>contact.
            case contact of
              None \<Rightarrow> io_throw (TRPCError NOT_FOUND ''Contact not found'')
            | Some c \<Rightarrow> io_return c))"

record deleteResult =
  success :: bool

definition contacts_delete :: "number \<Rightarrow> deleteResult io" where
  "contacts_delete id' =
     procedure
       (io_bind (deleteEmergencyContact id') (\<lambda>s. io_return \<lparr>success = s\<rparr>))"

record triggerInput =
  ti_deviceId :: string
  ti_latitude :: number
  ti_longitude :: number
  ti_triggerType :: triggerType

text \<open>
  \<open>rateLimit && rateLimit.isBlocked && rateLimit.blockedUntil && rateLimit.blockedUntil > now\<close>
\<close>

definition rateLimited :: "sosRateLimit option \<Rightarrow> date \<Rightarrow> bool" where
  "rateLimited rateLimit now' =
     (case rateLimit of
        None \<Rightarrow> False
      | Some rl \<Rightarrow>
          rl_isBlocked rl \<and> (case rl_blockedUntil rl of None \<Rightarrow> False | Some t \<Rightarrow> t > now'))"

definition sos_trigger :: "triggerInput \<Rightarrow> sosEvent io" where
  "sos_trigger input =
     procedure
       (io_bind (getSosRateLimit (ti_deviceId input)) (\<lambda>rateLimit.
       io_bind newDate (\<lambda>now'.
         if rateLimited rateLimit now'
         then io_throw (TRPCError TOO_MANY_REQUESTS ''SOS requests are rate limited'')
         else
           io_bind nanoid (\<lambda>eventId.
           io_bind (createSosEvent
                      \<lparr>iev_eventId = eventId, iev_deviceId = ti_deviceId input, iev_status = Active,
                       iev_triggerType = ti_triggerType input,
                       iev_initialLat = toString (ti_latitude input),
                       iev_initialLng = toString (ti_longitude input),
                       iev_trackingStartedAt = now'\<rparr>) (\<lambda>sosEvent.
             case sosEvent of
               None \<Rightarrow> io_throw (TRPCError INTERNAL_SERVER_ERROR ''Failed to create SOS event'')
             | Some ev \<Rightarrow>
                 io_bind (addLocationHistory
                            \<lparr>iloc_eventId = eventId, iloc_deviceId = ti_deviceId input,
                             iloc_latitude = toString (ti_latitude input),
                             iloc_longitude = toString (ti_longitude input),
                             iloc_accuracy = None, iloc_createdAt = None\<rparr>) (\<lambda>_.
                 io_bind (updateDevice (ti_deviceId input)
                            \<lparr>pdev_name = None, pdev_phone = None, pdev_email = None,
                             pdev_lastLocationLat = Some (toString (ti_latitude input)),
                             pdev_lastLocationLng = Some (toString (ti_longitude input)),
                             pdev_lastLocationTimestamp = Some now'\<rparr>) (\<lambda>_.
                 io_return ev)))))))"

definition sos_resolve :: "string \<Rightarrow> sosEvent io" where
  "sos_resolve eventId =
     procedure
       (io_bind newDate (\<lambda>resolvedAt.
       io_bind (updateSosEvent eventId
                  \<lparr>pev_status = Some Resolved, pev_resolvedAt = Some resolvedAt,
                   pev_notificationsSent = None\<rparr>) (\<lambda>sosEvent.
         case sosEvent of
           None \<Rightarrow> io_throw (TRPCError NOT_FOUND ''SOS event not found'')
         | Some ev \<Rightarrow> io_return ev)))"

definition sos_getActive :: "string \<Rightarrow> sosEvent list io" where
  "sos_getActive deviceId =
     procedure (getActiveSosEvents deviceId)"

definition sos_getLocationHistory :: "string \<Rightarrow> locationHistory list io" where
  "sos_getLocationHistory eventId =
     procedure (getLocationHistory eventId)"

definition offline_queueSos :: "string \<Rightarrow> number \<Rightarrow> number \<Rightarrow> offlineSosQueue io" where
  "offline_queueSos deviceId latitude longitude =
     procedure
       (io_bind nanoid (\<lambda>queueId.
       io_bind (addOfflineSosRequest
                  \<lparr>iq_queueId = queueId, iq_deviceId = deviceId, iq_latitude = toString latitude,
                   iq_longitude = toString longitude, iq_status = QueuePending\<rparr>) (\<lambda>queued.
         case queued of
           None \<Rightarrow> io_throw (TRPCError INTERNAL_SERVER_ERROR ''Failed to queue SOS'')
         | Some q \<Rightarrow> io_return q)))"

definition offline_getPending :: "string \<Rightarrow> offlineSosQueue list io" where
  "offline_getPending deviceId =
     procedure (getPendingOfflineSosRequests deviceId)"

definition offline_markSynced :: "string \<Rightarrow> string \<Rightarrow> offlineSosQueue io" where
  "offline_markSynced queueId eventId =
     procedure
       (io_bind newDate (\<lambda>syncedAt.
       io_bind (updateOfflineSosRequest queueId
                  \<lparr>pq_status = Some QueueSynced, pq_eventId = Some eventId,
                   pq_syncedAt = Some syncedAt\<rparr>) (\<lambda>updated.
         case updated of
           None \<Rightarrow> io_throw (TRPCError NOT_FOUND ''Queue item not found'')
         | Some q \<Rightarrow> io_return q)))"

subsection \<open>The notification service\<close>

record notificationResult =
  res_success :: bool
  res_notificationId :: string
  res_type :: notificationType
  res_recipient :: string
  res_error :: "string option"

record sendResponse =
  rsp_success :: bool
  rsp_messageId :: "string option"
  rsp_error :: "string option"

text \<open>
  The two senders are placeholders in the source: they log, wait and report success with a
  fresh message id. The log line and the delay are not modelled.
\<close>

definition sendTwilioSms :: "string \<Rightarrow> string \<Rightarrow> sendResponse io" where
  "sendTwilioSms phoneNumber text' =
     io_catch
       (io_bind nanoid (\<lambda>messageId.
          io_return \<lparr>rsp_success = True, rsp_messageId = Some messageId, rsp_error = None\<rparr>))
       (\<lambda>error. io_return \<lparr>rsp_success = False, rsp_messageId = None,
                             rsp_error = Some (message error)\<rparr>)"

definition sendEmailViaApi :: "string \<Rightarrow> string \<Rightarrow> string \<Rightarrow> sendResponse io" where
  "sendEmailViaApi email subject body =
     io_catch
       (io_bind nanoid (\<lambda>messageId.
          io_return \<lparr>rsp_success = True, rsp_messageId = Some messageId, rsp_error = None\<rparr>))
       (\<lambda>error. io_return \<lparr>rsp_success = False, rsp_messageId = None,
                             rsp_error = Some (message error)\<rparr>)"

definition sendSmsAlert ::
  "string \<Rightarrow> string \<Rightarrow> emergencyContact \<Rightarrow> string \<Rightarrow> string \<Rightarrow> notificationResult io" where
  "sendSmsAlert eventId notificationId contact deviceName locationUrl =
     io_catch
       (io_bind (createNotification
                   \<lparr>int_notificationId = notificationId, int_eventId = eventId,
                    int_contactId = ec_id contact, int_type = Sms,
                    int_recipient = ec_phone contact, int_status = Pending\<rparr>) (\<lambda>notification.
          if notification = None then io_throw (JsError ''Failed to create notification record'')
          else
            io_bind (sendTwilioSms (ec_phone contact)
                       (''EMERGENCY ALERT from '' @ deviceName
                        @ '': I need help! View my location: '' @ locationUrl)) (\<lambda>response.
            io_bind newDate (\<lambda>sentAt.
            io_bind (updateNotification notificationId
                       \<lparr>pnt_status = Some (if rsp_success response then Sent else Failed),
                        pnt_externalId = rsp_messageId response,
                        pnt_errorMessage = rsp_error response,
                        pnt_sentAt = Some sentAt\<rparr>) (\<lambda>_.
            io_return \<lparr>res_success = rsp_success response, res_notificationId = notificationId,
                       res_type = Sms, res_recipient = ec_phone contact,
                       res_error = rsp_error response\<rparr>)))))
       (\<lambda>error.
          io_bind (updateNotification notificationId
                     \<lparr>pnt_status = Some Failed, pnt_externalId = None,
                      pnt_errorMessage = Some (message error), pnt_sentAt = None\<rparr>) (\<lambda>_.
          io_throw error))"

text \<open>\<open>contact.email || ""\<close>\<close>

definition emailOrEmpty :: "emergencyContact \<Rightarrow> string" where
  "emailOrEmpty contact = (case ec_email contact of None \<Rightarrow> [] | Some e \<Rightarrow> e)"

definition sendEmailAlert ::
  "string \<Rightarrow> string \<Rightarrow> emergencyContact \<Rightarrow> string \<Rightarrow> string \<Rightarrow> notificationResult io" where
  "sendEmailAlert eventId notificationId contact deviceName locationUrl =
     io_catch
       (io_bind (createNotification
                   \<lparr>int_notificationId = notificationId, int_eventId = eventId,
                    int_contactId = ec_id contact, int_type = Email,
                    int_recipient = emailOrEmpty contact, int_status = Pending\<rparr>) (\<lambda>notification.
          if notification = None then io_throw (JsError ''Failed to create notification record'')
          else
            io_bind (sendEmailViaApi (emailOrEmpty contact)
                       (''EMERGENCY ALERT: '' @ deviceName @ '' needs help'')
                       (''EMERGENCY ALERT'' @ [CHR 0x0A, CHR 0x0A] @ deviceName
                        @ '' has triggered an emergency alert and needs help.''
                        @ [CHR 0x0A, CHR 0x0A] @ ''Location: '' @ locationUrl
                        @ [CHR 0x0A, CHR 0x0A]
                        @ ''Please respond immediately if you are able to help.''))
              (\<lambda>response.
            io_bind newDate (\<lambda>sentAt.
            io_bind (updateNotification notificationId
                       \<lparr>pnt_status = Some (if rsp_success response then Sent else Failed),
                        pnt_externalId = rsp_messageId response,
                        pnt_errorMessage = rsp_error response,
                        pnt_sentAt = Some sentAt\<rparr>) (\<lambda>_.
            io_return \<lparr>res_success = rsp_success response, res_notificationId = notificationId,
                       res_type = Email, res_recipient = emailOrEmpty contact,
                       res_error = rsp_error response\<rparr>)))))
       (\<lambda>error.
          io_bind (updateNotification notificationId
                     \<lparr>pnt_status = Some Failed, pnt_externalId = None,
                      pnt_errorMessage = Some (message error), pnt_sentAt = None\<rparr>) (\<lambda>_.
          io_throw error))"

text \<open>
  Truthiness of \<open>contact.phone\<close> and \<open>contact.email\<close>: a string that is present and not
  empty.
\<close>

definition hasPhone :: "emergencyContact \<Rightarrow> bool" where
  "hasPhone contact = (ec_phone contact \<noteq> [])"

definition hasEmail :: "emergencyContact \<Rightarrow> bool" where
  "hasEmail contact = (case ec_email contact of None \<Rightarrow> False | Some e \<Rightarrow> e \<noteq> [])"

text \<open>\<open>contact.phone || contact.email || "unknown"\<close>\<close>

definition recipientOf :: "emergencyContact \<Rightarrow> string" where
  "recipientOf contact =
     (if hasPhone contact then ec_phone contact
      else if hasEmail contact then emailOrEmpty contact
      else ''unknown'')"

text \<open>
  The \<open>try\<close> block around the SMS attempt: \<open>Some\<close> is the result that the block returns
  from the function, \<open>None\<close> is control falling through to the email fallback (no phone, or
  the attempt threw and the error was logged).
\<close>

definition trySms ::
  "string \<Rightarrow> string \<Rightarrow> emergencyContact \<Rightarrow> string \<Rightarrow> string \<Rightarrow> notificationResult option io" where
  "trySms eventId notificationId contact deviceName locationUrl =
     io_catch
       (if hasPhone contact
        then io_bind (sendSmsAlert eventId notificationId contact deviceName locationUrl)
               (\<lambda>r. io_return (Some r))
        else io_return None)
       (\<lambda>error. io_return None)"

definition sendEmergencyAlert ::
  "sosEvent \<Rightarrow> emergencyContact \<Rightarrow> string \<Rightarrow> string \<Rightarrow> notificationResult io" where
  "sendEmergencyAlert sosEvent contact deviceName locationUrl =
     io_bind nanoid (\<lambda>notificationId.
     io_bind (trySms (ev_eventId sosEvent) notificationId contact deviceName locationUrl) (\<lambda>sms.
       case sms of
         Some r \<Rightarrow> io_return r
       | None \<Rightarrow>
           if hasEmail contact
           then sendEmailAlert (ev_eventId sosEvent) notificationId contact deviceName locationUrl
           else io_return \<lparr>res_success = False, res_notificationId = notificationId,
                           res_type = Sms, res_recipient = recipientOf contact,
                           res_error = Some ''No valid contact method available''\<rparr>))"

text \<open>The body of the loop of \<open>notifyAllContacts\<close> for a contact that is active.\<close>

definition notifyContact ::
  "sosEvent \<Rightarrow> string \<Rightarrow> string \<Rightarrow> emergencyContact \<Rightarrow> notificationResult list
     \<Rightarrow> notificationResult list io" where
  "notifyContact sosEvent deviceName locationUrl contact results =
     io_catch
       (io_bind (sendEmergencyAlert sosEvent contact deviceName locationUrl) (\<lambda>result.
          io_return (results @ [result])))
       (\<lambda>error.
          io_bind nanoid (\<lambda>notificationId.
          io_return (results @ [\<lparr>res_success = False, res_notificationId = notificationId,
                                  res_type = Sms, res_recipient = recipientOf contact,
                                  res_error = Some (message error)\<rparr>])))"

fun notifyLoop ::
  "sosEvent \<Rightarrow> string \<Rightarrow> string \<Rightarrow> emergencyContact list \<Rightarrow> notificationResult list
     \<Rightarrow> notificationResult list io" where
  "notifyLoop sosEvent deviceName locationUrl [] results w = (Inr results, w)"
| "notifyLoop sosEvent deviceName locationUrl (contact # contacts) results w =
     (if \<not> ec_isActive contact then notifyLoop sosEvent deviceName locationUrl contacts results w
      else
        (case notifyContact sosEvent deviceName locationUrl contact results w of
           (Inl e, w') \<Rightarrow> (Inl e, w')
         | (Inr results', w') \<Rightarrow> notifyLoop sosEvent deviceName locationUrl contacts results' w'))"

definition notifyAllContacts :: "sosEvent \<Rightarrow> string \<Rightarrow> string \<Rightarrow> notificationResult list io" where
  "notifyAllContacts sosEvent deviceName locationUrl =
     io_bind (getEmergencyContacts (ev_deviceId sosEvent)) (\<lambda>contacts.
     io_bind (notifyLoop sosEvent deviceName locationUrl contacts []) (\<lambda>results.
     io_bind (updateSosEvent (ev_eventId sosEvent)
                \<lparr>pev_status = None, pev_resolvedAt = None,
                 pev_notificationsSent = Some (int (length (filter res_success results)))\<rparr>) (\<lambda>_.
     io_return results)))"

subsection \<open>The tracking service\<close>

record trackedLocation =
  tl_eventId :: string
  tl_latitude :: number
  tl_longitude :: number
  tl_accuracy :: "number option"
  tl_timestamp :: "date option"

text \<open>\<open>null\<close> is \<open>None\<close>; the \<open>catch\<close> turns every error into \<open>null\<close>.\<close>

definition updateLocation ::
  "string \<Rightarrow> string \<Rightarrow> number \<Rightarrow> number \<Rightarrow> number option \<Rightarrow> trackedLocation option io" where
  "updateLocation eventId deviceId latitude longitude accuracy =
     io_catch
       (io_bind (getSosEventByEventId eventId) (\<lambda>sosEvent.
          if (case sosEvent of None \<Rightarrow> True | Some e \<Rightarrow> ev_status e \<noteq> Active)
          then io_return None
          else
            io_bind (addLocationHistory
                       \<lparr>iloc_eventId = eventId, iloc_deviceId = deviceId,
                        iloc_latitude = toString latitude, iloc_longitude = toString longitude,
                        iloc_accuracy = accuracy, iloc_createdAt = None\<rparr>) (\<lambda>location.
              case location of
                None \<Rightarrow> io_return None
              | Some loc \<Rightarrow>
                  io_bind newDate (\<lambda>now'.
                  io_bind (updateDevice deviceId
                             \<lparr>pdev_name = None, pdev_phone = None, pdev_email = None,
                              pdev_lastLocationLat = Some (toString latitude),
                              pdev_lastLocationLng = Some (toString longitude),
                              pdev_lastLocationTimestamp = Some now'\<rparr>) (\<lambda>_.
                  io_return (Some \<lparr>tl_eventId = eventId, tl_latitude = latitude,
                                   tl_longitude = longitude, tl_accuracy = accuracy,
                                   tl_timestamp = iloc_createdAt loc\<rparr>))))))
       (\<lambda>error. io_return None)"

text \<open>\<open>activeSessions.set\<close> and \<open>activeSessions.delete\<close> of a \<open>Map\<close>.\<close>

fun mapSet :: "'k \<Rightarrow> 'v \<Rightarrow> ('k \<times> 'v) list \<Rightarrow> ('k \<times> 'v) list" where
  "mapSet k v [] = [(k, v)]"
| "mapSet k v ((k', v') # m) = (if k' = k then (k, v) # m else (k', v') # mapSet k v m)"

definition mapDelete :: "'k \<Rightarrow> ('k \<times> 'v) list \<Rightarrow> ('k \<times> 'v) list" where
  "mapDelete k m = filter (\<lambda>entry. fst entry \<noteq> k) m"

definition startTracking :: "string \<Rightarrow> string \<Rightarrow> world \<Rightarrow> trackingSession \<times> world" where
  "startTracking eventId deviceId w =
     (let session = \<lparr>ts_eventId = eventId, ts_deviceId = deviceId, ts_subscribers = [],
                      ts_startedAt = clock w\<rparr>
      in (session, w\<lparr>activeSessions := mapSet eventId session (activeSessions w)\<rparr>))"

definition stopTracking :: "string \<Rightarrow> world \<Rightarrow> bool \<times> world" where
  "stopTracking eventId w =
     (list_ex (\<lambda>entry. fst entry = eventId) (activeSessions w),
      w\<lparr>activeSessions := mapDelete eventId (activeSessions w)\<rparr>)"

text \<open>
  The loop of \<open>cleanupExpiredSessions\<close> over the snapshot \<open>entries\<close>, with the map and the
  counter it updates.
\<close>

fun cleanupLoop ::
  "date \<Rightarrow> int \<Rightarrow> (string \<times> trackingSession) list \<Rightarrow> (string \<times> trackingSession) list \<Rightarrow> nat
     \<Rightarrow> nat \<times> (string \<times> trackingSession) list" where
  "cleanupLoop now' maxAge [] sessions cleaned = (cleaned, sessions)"
| "cleanupLoop now' maxAge ((eventId, session) # entries) sessions cleaned =
     (if now' - ts_startedAt session > maxAge
      then cleanupLoop now' maxAge entries (mapDelete eventId sessions) (cleaned + 1)
      else cleanupLoop now' maxAge entries sessions cleaned)"

definition cleanupExpiredSessions :: "world \<Rightarrow> nat \<times> world" where
  "cleanupExpiredSessions w =
     (let now' = clock w;
          maxAge = 24 * 60 * 60 * 1000;
          (cleaned, sessions) = cleanupLoop now' maxAge (activeSessions w) (activeSessions w) 0
      in (cleaned, w\<lparr>activeSessions := sessions\<rparr>))"

subsection \<open>The server as a transition system\<close>

text \<open>
  The procedures of the router and the operations of the two services as requests;
  \<open>serve\<close> is the world a request leaves behind.
\<close>

datatype request =
    DeviceRegister registerInput
  | DeviceGetDevice string
  | DeviceUpdateDevice updateDeviceInput
  | ContactsList string
  | ContactsAdd addContactInput
  | ContactsUpdate updateContactInput
  | ContactsDelete number
  | SosTrigger triggerInput
  | SosGetActive string
  | SosResolve string
  | SosGetLocationHistory string
  | OfflineQueueSos string number number
  | OfflineGetPending string
  | OfflineMarkSynced string string
  | NotifyAllContacts sosEvent string string
  | UpdateLocation string string number number "number option"
  | StartTracking string string
  | StopTracking string
  | CleanupExpiredSessions

fun serve :: "(string \<Rightarrow> bool) \<Rightarrow> request \<Rightarrow> world \<Rightarrow> world" where
  "serve isEmail (DeviceRegister input) w = snd (device_register isEmail input w)"
| "serve isEmail (DeviceGetDevice deviceId) w = snd (device_getDevice deviceId w)"
| "serve isEmail (DeviceUpdateDevice input) w = snd (device_updateDevice isEmail input w)"
| "serve isEmail (ContactsList deviceId) w = snd (contacts_list deviceId w)"
| "serve isEmail (ContactsAdd input) w = snd (contacts_add isEmail input w)"
| "serve isEmail (ContactsUpdate input) w = snd (contacts_update isEmail input w)"
| "serve isEmail (ContactsDelete id') w = snd (contacts_delete id' w)"
| "serve isEmail (SosTrigger input) w = snd (sos_trigger input w)"
| "serve isEmail (SosGetActive deviceId) w = snd (sos_getActive deviceId w)"
| "serve isEmail (SosResolve eventId) w = snd (sos_resolve eventId w)"
| "serve isEmail (SosGetLocationHistory eventId) w = snd (sos_getLocationHistory eventId w)"
| "serve isEmail (OfflineQueueSos deviceId latitude longitude) w =
     snd (offline_queueSos deviceId latitude longitude w)"
| "serve isEmail (OfflineGetPending deviceId) w = snd (offline_getPending deviceId w)"
| "serve isEmail (OfflineMarkSynced queueId eventId) w = snd (offline_markSynced queueId eventId w)"
| "serve isEmail (NotifyAllContacts sosEvent deviceName locationUrl) w =
     snd (notifyAllContacts sosEvent deviceName locationUrl w)"
| "serve isEmail (UpdateLocation eventId deviceId latitude longitude accuracy) w =
     snd (updateLocation eventId deviceId latitude longitude accuracy w)"
| "serve isEmail (StartTracking eventId deviceId) w = snd (startTracking eventId deviceId w)"
| "serve isEmail (StopTracking eventId) w = snd (stopTracking eventId w)"
| "serve isEmail CleanupExpiredSessions w = snd (cleanupExpiredSessions w)"

fun serveAll :: "(string \<Rightarrow> bool) \<Rightarrow> request list \<Rightarrow> world \<Rightarrow> world" where
  "serveAll isEmail [] w = w"
| "serveAll isEmail (request # requests) w = serveAll isEmail requests (serve isEmail request w)"

section \<open>Notions used in the statements\<close>

text \<open>Whether the next statement sent to the database throws, and the world once it has run.\<close>

definition nextFault :: "world \<Rightarrow> bool" where
  "nextFault w = (case faults w of [] \<Rightarrow> False | f # _ \<Rightarrow> f)"

definition afterStatement :: "world \<Rightarrow> world" where
  "afterStatement w = w\<lparr>faults := tl (faults w)\<rparr>"

text \<open>None of the next \<open>n\<close> statements throws.\<close>

definition faultFree :: "nat \<Rightarrow> world \<Rightarrow> bool" where
  "faultFree n w = (\<not> list_ex (\<lambda>f. f) (take n (faults w)))"

text \<open>
  The last-known-location fields of the device \<open>deviceId\<close>, holding the numbers \<open>latitude\<close>
  and \<open>longitude\<close>.
\<close>

definition lastLocationSet :: "string \<Rightarrow> number \<Rightarrow> number \<Rightarrow> date \<Rightarrow> device \<Rightarrow> device" where
  "lastLocationSet deviceId latitude longitude now' d =
     (if dev_deviceId d = deviceId
      then d\<lparr>dev_lastLocationLat := Some (DecimalText latitude),
             dev_lastLocationLng := Some (DecimalText longitude),
             dev_lastLocationTimestamp := Some now'\<rparr>
      else d)"

text \<open>A coordinate that the columns of the input's tables accept: in range once rounded.\<close>

definition latitudeInRange :: "number \<Rightarrow> bool" where
  "latitudeInRange x = (\<bar>roundHalfAway (x * 10 ^ 8)\<bar> < 10 ^ 10)"

definition longitudeInRange :: "number \<Rightarrow> bool" where
  "longitudeInRange x = (\<bar>roundHalfAway (x * 10 ^ 8)\<bar> < 10 ^ 11)"

text \<open>An accuracy that the \<open>accuracy\<close> column accepts.\<close>

definition accuracyInRange :: "number option \<Rightarrow> bool" where
  "accuracyInRange accuracy =
     (case accuracy of
        None \<Rightarrow> True
      | Some x \<Rightarrow> - 2147483648 \<le> roundHalfAway x \<and> roundHalfAway x \<le> 2147483647)"

text \<open>
  The fan-out as the specification words it: one attempt for each contact of a list, in
  order, where the attempt for a contact is the result of \<open>sendEmergencyAlert\<close> or, when it
  throws, the failure result recorded in its place.
\<close>

definition attempt ::
  "sosEvent \<Rightarrow> string \<Rightarrow> string \<Rightarrow> emergencyContact \<Rightarrow> world \<Rightarrow> notificationResult \<times> world" where
  "attempt sosEvent deviceName locationUrl contact w =
     (case sendEmergencyAlert sosEvent contact deviceName locationUrl w of
        (Inr r, w') \<Rightarrow> (r, w')
      | (Inl e, w') \<Rightarrow>
          (\<lparr>res_success = False, res_notificationId = nanoidSeq w' (nanoidCount w'),
            res_type = Sms, res_recipient = recipientOf contact,
            res_error = Some (message e)\<rparr>,
           w'\<lparr>nanoidCount := Suc (nanoidCount w')\<rparr>))"

fun attemptEach ::
  "sosEvent \<Rightarrow> string \<Rightarrow> string \<Rightarrow> emergencyContact list \<Rightarrow> world
     \<Rightarrow> notificationResult list \<times> world" where
  "attemptEach sosEvent deviceName locationUrl [] w = ([], w)"
| "attemptEach sosEvent deviceName locationUrl (contact # contacts) w =
     (case attempt sosEvent deviceName locationUrl contact w of
        (r, w') \<Rightarrow>
          (case attemptEach sosEvent deviceName locationUrl contacts w' of
             (rs, w'') \<Rightarrow> (r # rs, w'')))"

text \<open>The stored coordinates fit the columns that hold them.\<close>

definition fits :: "decimalType \<Rightarrow> decimalText \<Rightarrow> bool" where
  "fits t v = (case v of DecimalText x \<Rightarrow> storable t x)"

definition fitsOptional :: "decimalType \<Rightarrow> decimalText option \<Rightarrow> bool" where
  "fitsOptional t v = (case v of None \<Rightarrow> True | Some x \<Rightarrow> fits t x)"

definition coordinatesStored :: "world \<Rightarrow> bool" where
  "coordinatesStored w =
     (list_all (\<lambda>d. fitsOptional (snd (latitudeColumn Devices)) (dev_lastLocationLat d)
                   \<and> fitsOptional (snd (longitudeColumn Devices)) (dev_lastLocationLng d))
        (devices w)
      \<and> list_all (\<lambda>e. fits (snd (latitudeColumn SosEvents)) (ev_initialLat e)
                     \<and> fits (snd (longitudeColumn SosEvents)) (ev_initialLng e))
          (sosEvents w)
      \<and> list_all (\<lambda>l. fits (snd (latitudeColumn LocationHistory)) (loc_latitude l)
                     \<and> fits (snd (longitudeColumn LocationHistory)) (loc_longitude l))
          (locationHistoryTable w)
      \<and> list_all (\<lambda>q. fits (snd (latitudeColumn OfflineSosQueue)) (q_latitude q)
                     \<and> fits (snd (longitudeColumn OfflineSosQueue)) (q_longitude q))
          (offlineSosQueueTable w))"

text \<open>Every stored status is one that the server writes.\<close>

definition statusesWritten :: "world \<Rightarrow> bool" where
  "statusesWritten w =
     list_all (\<lambda>e. ev_status e = Active \<or> ev_status e = Resolved) (sosEvents w)"

text \<open>A session that started more than 24 hours before \<open>now'\<close>.\<close>

definition olderThan24h :: "date \<Rightarrow> trackingSession \<Rightarrow> bool" where
  "olderThan24h now' session = (ts_startedAt session + 24 * 60 * 60 * 1000 < now')"

text \<open>Every run of \<open>m\<close> relates the world before to the world after by \<open>R\<close>.\<close>

definition follows :: "(world \<Rightarrow> world \<Rightarrow> bool) \<Rightarrow> 'a io \<Rightarrow> bool" where
  "follows R m = (\<forall>w. R w (snd (m w)))"

text \<open>
  The SosEvent table and the database handle are as they were, and stored coordinates
  that fitted their columns still do.
\<close>

definition eventsKept :: "world \<Rightarrow> world \<Rightarrow> bool" where
  "eventsKept w w' =
     (sosEvents w' = sosEvents w \<and> dbReady w' = dbReady w
      \<and> (coordinatesStored w \<longrightarrow> coordinatesStored w'))"

text \<open>
  A stored event later: the same event, with its status as it was or \<open>resolved\<close>. And the
  SosEvent table later: every row it had is still in its place and has done such a step;
  the statuses are still ones the server writes, and the coordinates still fit, if they
  were and did.
\<close>

definition statusStep :: "sosEvent \<Rightarrow> sosEvent \<Rightarrow> bool" where
  "statusStep old new =
     (ev_eventId new = ev_eventId old
      \<and> (ev_status new = ev_status old \<or> ev_status new = Resolved))"

definition eventsEvolve :: "world \<Rightarrow> world \<Rightarrow> bool" where
  "eventsEvolve w w' =
     (length (sosEvents w) \<le> length (sosEvents w')
      \<and> list_all2 statusStep (sosEvents w) (take (length (sosEvents w)) (sosEvents w'))
      \<and> (statusesWritten w \<longrightarrow> statusesWritten w')
      \<and> (coordinatesStored w \<longrightarrow> coordinatesStored w'))"

section \<open>Sample worlds\<close>

definition sampleIds :: "nat \<Rightarrow> string" where
  "sampleIds n = replicate (Suc n) (CHR ''k'')"

definition asha :: device where
  "asha = \<lparr>dev_deviceId = ''d1'', dev_name = ''Asha'', dev_phone = ''9999999999'',
           dev_email = None, dev_isActive = True, dev_lastLocationLat = None,
           dev_lastLocationLng = None, dev_lastLocationTimestamp = None, dev_createdAt = 10\<rparr>"

definition world0 :: world where
  "world0 = \<lparr>dbReady = True, devices = [asha], emergencyContacts = [], sosEvents = [],
             locationHistoryTable = [], notifications = [], offlineSosQueueTable = [],
             sosRateLimitTable = [], contactAutoIncrement = 1,
             faults = [], nanoidSeq = sampleIds, nanoidCount = 0, clock = 1000,
             activeSessions = []\<rparr>"

definition blockedWorld :: world where
  "blockedWorld = world0\<lparr>sosRateLimitTable :=
     [\<lparr>rl_deviceId = ''d1'', rl_sosCount = 5, rl_windowStart = 0, rl_isBlocked = True,
       rl_blockedUntil = Some 2000\<rparr>]\<rparr>"

definition sampleTrigger :: triggerInput where
  "sampleTrigger = \<lparr>ti_deviceId = ''d1'', ti_latitude = 12.9716, ti_longitude = 77.5946,
                    ti_triggerType = Manual\<rparr>"

definition sampleEvent :: sosEvent where
  "sampleEvent = \<lparr>ev_eventId = ''k'', ev_deviceId = ''d1'', ev_status = Active,
                  ev_triggerType = Manual, ev_initialLat = DecimalText 12.9716,
                  ev_initialLng = DecimalText 77.5946, ev_notificationsSent = 0,
                  ev_trackingStartedAt = Some 1000, ev_resolvedAt = None, ev_createdAt = 1000\<rparr>"


definition sessionsWorld :: world where
  "sessionsWorld = world0\<lparr>clock := 100000000, activeSessions :=
     [(''e1'', \<lparr>ts_eventId = ''e1'', ts_deviceId = ''d1'', ts_subscribers = [], ts_startedAt = 0\<rparr>),
      (''e2'', \<lparr>ts_eventId = ''e2'', ts_deviceId = ''d1'', ts_subscribers = [''c1''],
                ts_startedAt = 90000000\<rparr>),
      (''e3'', \<lparr>ts_eventId = ''e3'', ts_deviceId = ''d2'', ts_subscribers = [],
                ts_startedAt = 13600000\<rparr>)]\<rparr>"

definition sampleRegistration :: registerInput where
  "sampleRegistration = \<lparr>ri_deviceId = ''d1'', ri_name = ''Someone else'',
                         ri_phone = ''7777777777'', ri_email = None\<rparr>"

definition contactBoth :: emergencyContact where
  "contactBoth = \<lparr>ec_id = 1, ec_deviceId = ''d1'', ec_name = ''Bina'', ec_phone = ''8888888888'',
                  ec_email = Some ''bina@example.org'', ec_priority = 0, ec_isActive = True\<rparr>"

definition contactNone :: emergencyContact where
  "contactNone = \<lparr>ec_id = 2, ec_deviceId = ''d1'', ec_name = ''Chitra'', ec_phone = [],
                  ec_email = None, ec_priority = 1, ec_isActive = True\<rparr>"

definition smsDownWorld :: world where
  "smsDownWorld = world0\<lparr>faults := [True]\<rparr>"

definition bothDownWorld :: world where
  "bothDownWorld = world0\<lparr>faults := [True, False, False, True]\<rparr>"




definition fineLatitude :: number where
  "fineLatitude = 12.123456789"

definition fineLongitude :: number where
  "fineLongitude = 77.59460001"

definition fineTrigger :: triggerInput where
  "fineTrigger = \<lparr>ti_deviceId = ''d1'', ti_latitude = fineLatitude,
                  ti_longitude = fineLongitude, ti_triggerType = Manual\<rparr>"


section \<open>Properties\<close>

subsection \<open>Columns\<close>

lemma roundHalfAway_of_int: "roundHalfAway (of_int n) = n"
proof (cases "0 \<le> n")
  case True
  have "\<lfloor>(of_int n :: rat) + 1 / 2\<rfloor> = n" by (simp add: floor_eq_iff)
  then show ?thesis using True by (simp add: roundHalfAway_def)
next
  case False
  have "\<lfloor>- (of_int n :: rat) + 1 / 2\<rfloor> = - n"
    by (simp add: floor_eq_iff)
  then show ?thesis using False by (simp add: roundHalfAway_def)
qed

lemma roundTo_exact: "fractionDigits x s \<Longrightarrow> roundTo s x = x"
proof -
  assume "fractionDigits x s"
  then have e: "x * 10 ^ s = of_int \<lfloor>x * 10 ^ s\<rfloor>"
    unfolding fractionDigits_def by (rule sym)
  have "roundHalfAway (x * 10 ^ s) = \<lfloor>x * 10 ^ s\<rfloor>"
    by (subst e) (rule roundHalfAway_of_int)
  then have "roundTo s x = of_int \<lfloor>x * 10 ^ s\<rfloor> / 10 ^ s"
    by (simp add: roundTo_def)
  also have "\<dots> = x * 10 ^ s / 10 ^ s" using e by simp
  finally show ?thesis by simp
qed

lemma roundTo_storable:
  assumes "\<bar>roundHalfAway (x * 10 ^ s)\<bar> < 10 ^ p"
  shows "storable \<lparr>dec_precision = p, dec_scale = s\<rparr> (roundTo s x)"
proof -
  have m: "roundTo s x * 10 ^ s = of_int (roundHalfAway (x * 10 ^ s))"
    by (simp add: roundTo_def)
  have "\<bar>(of_int (roundHalfAway (x * 10 ^ s)) :: rat)\<bar> < 10 ^ p"
  proof -
    have "(of_int \<bar>roundHalfAway (x * 10 ^ s)\<bar> :: rat) < of_int (10 ^ p)"
      using assms by (simp only: of_int_less_iff)
    then show ?thesis by simp
  qed
  then show ?thesis
    by (simp add: storable_def fractionDigits_def m)
qed

lemma decimalColumn_fits: "decimalColumn t v = Inr y \<Longrightarrow> fits t y"
proof -
  assume a: "decimalColumn t v = Inr y"
  obtain x where v: "v = DecimalText x" by (cases v)
  have r: "\<bar>roundHalfAway (x * 10 ^ dec_scale t)\<bar> < 10 ^ dec_precision t"
    and y: "y = DecimalText (roundTo (dec_scale t) x)"
    using a by (auto simp add: decimalColumn_def v split: if_splits)
  have "storable \<lparr>dec_precision = dec_precision t, dec_scale = dec_scale t\<rparr>
          (roundTo (dec_scale t) x)"
    by (rule roundTo_storable [OF r])
  then show ?thesis by (simp add: fits_def y storable_def)
qed

lemma optionalDecimalColumn_fits: "optionalDecimalColumn t v = Inr y \<Longrightarrow> fitsOptional t y"
  by (auto simp add: optionalDecimalColumn_def fitsOptional_def decimalColumn_fits
      split: option.splits sum.splits)

lemma latitude_column:
  "decimalColumn \<lparr>dec_precision = 10, dec_scale = 8\<rparr> (toString x) =
     (if latitudeInRange x then Inr (DecimalText (roundTo 8 x))
      else Inl (DriverError ''Out of range value''))"
  by (simp add: decimalColumn_def toString_def latitudeInRange_def)

lemma longitude_column:
  "decimalColumn \<lparr>dec_precision = 11, dec_scale = 8\<rparr> (toString x) =
     (if longitudeInRange x then Inr (DecimalText (roundTo 8 x))
      else Inl (DriverError ''Out of range value''))"
  by (simp add: decimalColumn_def toString_def longitudeInRange_def)

subsection \<open>Statements and queries\<close>

lemma execute_eq:
  "execute w = (if nextFault w then Inl (DriverError ''query failed'') else Inr (), afterStatement w)"
  by (cases w) (simp add: execute_def nextFault_def afterStatement_def split: list.splits)

lemma faultFree_0: "faultFree 0 w"
  by (simp add: faultFree_def)

lemma faultFree_Suc: "faultFree (Suc n) w = (\<not> nextFault w \<and> faultFree n (afterStatement w))"
  by (cases "faults w") (simp_all add: faultFree_def nextFault_def afterStatement_def)

lemma firstRow_take_filter: "firstRow (take (Suc 0) (filter P xs)) = find P xs"
  by (induction xs) (simp_all add: firstRow_def)

lemma find_append_fresh:
  "\<not> list_ex P xs \<Longrightarrow> P x \<Longrightarrow> find P (xs @ [x]) = Some x"
  by (induction xs) simp_all

lemmas io_simps = io_bind_def io_return_def io_throw_def io_catch_def getDb_def newDate_def
  defaultNow_def nanoid_def noValuesToSet_def procedure_def

lemma db_select_eq:
  "db_select table cond w =
     (if nextFault w then (Inl (DriverError ''query failed''), afterStatement w)
      else (Inr (filter cond (table (afterStatement w))), afterStatement w))"
  by (simp add: db_select_def io_bind_def execute_eq)

lemma db_insert_eq:
  "db_insert table table_update clash stored w =
     (if nextFault w then (Inl (DriverError ''query failed''), afterStatement w)
      else case stored of
        Inl e \<Rightarrow> (Inl e, afterStatement w)
      | Inr row \<Rightarrow>
          if list_ex (clash row) (table (afterStatement w))
          then (Inl (DriverError ''Duplicate entry''), afterStatement w)
          else (Inr (), table_update (\<lambda>rows. rows @ [row]) (afterStatement w)))"
  by (simp add: db_insert_def io_bind_def execute_eq)

lemma db_update_eq:
  "db_update table table_update cond stored w =
     (if nextFault w then (Inl (DriverError ''query failed''), afterStatement w)
      else case stored of
        Inr change \<Rightarrow>
          (Inr (), table_update (map (\<lambda>r. if cond r then change r else r)) (afterStatement w))
      | Inl e \<Rightarrow>
          if list_ex cond (table (afterStatement w)) then (Inl e, afterStatement w)
          else (Inr (), afterStatement w))"
  by (simp add: db_update_def io_bind_def execute_eq)

lemma db_delete_eq:
  "db_delete table_update cond w =
     (if nextFault w then (Inl (DriverError ''query failed''), afterStatement w)
      else (Inr (), table_update (filter (\<lambda>r. \<not> cond r)) (afterStatement w)))"
  by (simp add: db_delete_def io_bind_def execute_eq)

lemmas db_simps = db_select_eq db_insert_eq db_update_eq db_delete_eq firstRow_take_filter

lemma getSosRateLimit_eq:
  "getSosRateLimit deviceId w =
     (if \<not> dbReady w then (Inr None, w)
      else if nextFault w then (Inl (DriverError ''query failed''), afterStatement w)
      else (Inr (find (\<lambda>r. rl_deviceId r = deviceId) (sosRateLimitTable w)), afterStatement w))"
  by (simp add: getSosRateLimit_def io_simps db_simps afterStatement_def)

lemma getDeviceByDeviceId_eq:
  "getDeviceByDeviceId deviceId w =
     (if \<not> dbReady w then (Inr None, w)
      else if nextFault w then (Inl (DriverError ''query failed''), afterStatement w)
      else (Inr (find (\<lambda>d. dev_deviceId d = deviceId) (devices w)), afterStatement w))"
  by (simp add: getDeviceByDeviceId_def io_simps db_simps afterStatement_def)

lemma getSosEventByEventId_eq:
  "getSosEventByEventId eventId w =
     (if \<not> dbReady w then (Inr None, w)
      else if nextFault w then (Inl (DriverError ''query failed''), afterStatement w)
      else (Inr (find (\<lambda>e. ev_eventId e = eventId) (sosEvents w)), afterStatement w))"
  by (simp add: getSosEventByEventId_def io_simps db_simps afterStatement_def)

text \<open>The rows that the trigger and the location update hand to the tables.\<close>

lemma sosEventRow_toString:
  "sosEventRow \<lparr>iev_eventId = i, iev_deviceId = d, iev_status = s, iev_triggerType = t,
                iev_initialLat = toString x, iev_initialLng = toString y,
                iev_trackingStartedAt = n\<rparr> c =
     (if latitudeInRange x \<and> longitudeInRange y
      then Inr \<lparr>ev_eventId = i, ev_deviceId = d, ev_status = s, ev_triggerType = t,
                ev_initialLat = DecimalText (roundTo 8 x),
                ev_initialLng = DecimalText (roundTo 8 y), ev_notificationsSent = 0,
                ev_trackingStartedAt = Some n, ev_resolvedAt = None, ev_createdAt = c\<rparr>
      else Inl (DriverError ''Out of range value''))"
  by (simp add: sosEventRow_def latitude_column longitude_column)

lemma locationRow_toString:
  "locationRow \<lparr>iloc_eventId = i, iloc_deviceId = d, iloc_latitude = toString x,
                iloc_longitude = toString y, iloc_accuracy = a, iloc_createdAt = None\<rparr> c =
     (if latitudeInRange x \<and> longitudeInRange y \<and> accuracyInRange a
      then Inr \<lparr>loc_eventId = i, loc_deviceId = d, loc_latitude = DecimalText (roundTo 8 x),
                loc_longitude = DecimalText (roundTo 8 y),
                loc_accuracy = map_option roundHalfAway a, loc_createdAt = c\<rparr>
      else Inl (DriverError ''Out of range value''))"
  by (simp add: locationRow_def latitude_column longitude_column orKeep_def intColumn_def
      accuracyInRange_def split: option.splits)

lemma accuracyInRange_None: "accuracyInRange None"
  by (simp add: accuracyInRange_def)

lemma storedDevicePatch_toString:
  "storedDevicePatch \<lparr>pdev_name = None, pdev_phone = None, pdev_email = None,
                      pdev_lastLocationLat = Some (toString x),
                      pdev_lastLocationLng = Some (toString y),
                      pdev_lastLocationTimestamp = Some n\<rparr> =
     (if latitudeInRange x \<and> longitudeInRange y
      then Inr (\<lambda>d. d\<lparr>dev_lastLocationLat := Some (DecimalText (roundTo 8 x)),
                       dev_lastLocationLng := Some (DecimalText (roundTo 8 y)),
                       dev_lastLocationTimestamp := Some n\<rparr>)
      else Inl (DriverError ''Out of range value''))"
  by (auto simp add: storedDevicePatch_def optionalDecimalColumn_def latitude_column
      longitude_column setDevice_def orKeep_def orKeepOpt_def)

lemma sosEventRow_id: "sosEventRow event c = Inr row \<Longrightarrow> ev_eventId row = iev_eventId event"
  by (auto simp add: sosEventRow_def split: sum.splits)

lemma createSosEvent_eq:
  "createSosEvent event w =
     (if \<not> dbReady w then (Inr None, w)
      else if nextFault w then (Inl (DriverError ''query failed''), afterStatement w)
      else case sosEventRow event (clock w) of
        Inl e \<Rightarrow> (Inl e, afterStatement w)
      | Inr row \<Rightarrow>
          if list_ex (\<lambda>old. ev_eventId old = iev_eventId event) (sosEvents w)
          then (Inl (DriverError ''Duplicate entry''), afterStatement w)
          else if nextFault (afterStatement w)
          then (Inl (DriverError ''query failed''),
                (afterStatement (afterStatement w))\<lparr>sosEvents := sosEvents w @ [row]\<rparr>)
          else (Inr (Some row),
                (afterStatement (afterStatement w))\<lparr>sosEvents := sosEvents w @ [row]\<rparr>))"
proof (cases "sosEventRow event (clock w)")
  case (Inl e)
  then show ?thesis
    by (simp add: createSosEvent_def io_simps db_insert_eq afterStatement_def)
next
  case (Inr row)
  have row: "ev_eventId row = iev_eventId event"
    by (rule sosEventRow_id [OF Inr])
  have fresh: "\<not> list_ex (\<lambda>old. ev_eventId old = iev_eventId event) (sosEvents w) \<Longrightarrow>
        find (\<lambda>e. ev_eventId e = iev_eventId event) (sosEvents w @ [row]) = Some row"
    by (rule find_append_fresh) (simp_all add: row)
  show ?thesis
    by (simp add: createSosEvent_def io_simps db_insert_eq getSosEventByEventId_eq Inr row fresh
        afterStatement_def nextFault_def)
qed

lemma addLocationHistory_eq:
  "addLocationHistory location w =
     (if \<not> dbReady w then (Inr None, w)
      else if nextFault w then (Inl (DriverError ''query failed''), afterStatement w)
      else case locationRow location (clock w) of
        Inl e \<Rightarrow> (Inl e, afterStatement w)
      | Inr row \<Rightarrow>
          (Inr (Some location),
           (afterStatement w)\<lparr>locationHistoryTable := locationHistoryTable w @ [row]\<rparr>))"
  by (simp add: addLocationHistory_def io_simps db_insert_eq afterStatement_def list_ex_iff
      split: sum.splits)

lemma updateDevice_eq:
  "updateDevice deviceId updates w =
     (if \<not> dbReady w then (Inr None, w)
      else if devicePatchEmpty updates then (Inl (JsError ''No values to set''), w)
      else if nextFault w then (Inl (DriverError ''query failed''), afterStatement w)
      else case storedDevicePatch updates of
        Inl e \<Rightarrow>
          if list_ex (\<lambda>d. dev_deviceId d = deviceId) (devices w) then (Inl e, afterStatement w)
          else if nextFault (afterStatement w)
          then (Inl (DriverError ''query failed''), afterStatement (afterStatement w))
          else (Inr None, afterStatement (afterStatement w))
      | Inr change \<Rightarrow>
          if nextFault (afterStatement w)
          then (Inl (DriverError ''query failed''),
                (afterStatement (afterStatement w))
                  \<lparr>devices := map (\<lambda>d. if dev_deviceId d = deviceId then change d else d)
                                 (devices w)\<rparr>)
          else (Inr (find (\<lambda>d. dev_deviceId d = deviceId)
                       (map (\<lambda>d. if dev_deviceId d = deviceId then change d else d)
                          (devices w))),
                (afterStatement (afterStatement w))
                  \<lparr>devices := map (\<lambda>d. if dev_deviceId d = deviceId then change d else d)
                                 (devices w)\<rparr>))"
  by (auto simp add: updateDevice_def io_simps db_update_eq getDeviceByDeviceId_eq
      afterStatement_def nextFault_def list_ex_iff find_None_iff split: sum.splits)

lemma roundHalfAway_near: "\<bar>of_int (roundHalfAway y) - y\<bar> \<le> 1 / 2"
proof (cases "0 \<le> y")
  case True
  have "\<bar>of_int \<lfloor>y + 1 / 2\<rfloor> - y\<bar> \<le> 1 / 2"
    by linarith
  then show ?thesis using True by (simp only: roundHalfAway_def if_True)
next
  case False
  have r: "roundHalfAway y = - \<lfloor>- y + 1 / 2\<rfloor>"
    using False by (simp add: roundHalfAway_def)
  have "\<bar>- of_int \<lfloor>- y + 1 / 2\<rfloor> - y\<bar> \<le> 1 / 2"
    by linarith
  then show ?thesis by (simp only: r of_int_minus)
qed

lemma roundTo_near: "\<bar>roundTo s x - x\<bar> \<le> 1 / (2 * 10 ^ s)"
proof -
  have "roundTo s x - x = (of_int (roundHalfAway (x * 10 ^ s)) - x * 10 ^ s) / 10 ^ s"
    by (simp add: roundTo_def diff_divide_distrib)
  then have "\<bar>roundTo s x - x\<bar> = \<bar>of_int (roundHalfAway (x * 10 ^ s)) - x * 10 ^ s\<bar> / 10 ^ s"
    by (simp add: abs_divide)
  also have "\<dots> \<le> (1 / 2) / 10 ^ s"
    by (rule divide_right_mono [OF roundHalfAway_near]) simp
  finally show ?thesis by simp
qed

lemma roundTo_digits: "fractionDigits (roundTo s x) s"
  by (simp add: fractionDigits_def roundTo_def)

subsection \<open>Procedures\<close>

lemma procedure_Inr: "(procedure m w = (Inr v, w')) = (m w = (Inr v, w'))"
  by (auto simp add: procedure_def io_catch_def io_throw_def split: prod.splits sum.splits)

lemma procedure_Inl:
  "(procedure m w = (Inl e, w')) = (\<exists>cause. m w = (Inl cause, w') \<and> e = toTRPCError cause)"
  by (auto simp add: procedure_def io_catch_def io_throw_def split: prod.splits sum.splits)

lemma procedure_eq:
  "procedure m w = (case fst (m w) of Inl e \<Rightarrow> Inl (toTRPCError e) | Inr v \<Rightarrow> Inr v, snd (m w))"
  by (auto simp add: procedure_def io_catch_def io_throw_def split: prod.splits sum.splits)

subsection \<open>The rate limiter\<close>

text \<open>
  Claim C2. When the rate-limit record of the device says \<open>isBlocked\<close> and its
  \<open>blockedUntil\<close> lies after the current time, \<open>sos.trigger\<close> throws the
  \<open>TOO_MANY_REQUESTS\<close> error and has done nothing but the one query: no SosEvent row, no
  LocationHistory row and no device update.
\<close>

theorem sos_trigger_rate_limited:
  assumes "dbReady w" and "\<not> nextFault w"
    and "find (\<lambda>r. rl_deviceId r = ti_deviceId input) (sosRateLimitTable w) = Some rl"
    and "rl_isBlocked rl" and "rl_blockedUntil rl = Some t" and "clock w < t"
  shows "sos_trigger input w =
           (Inl (TRPCError TOO_MANY_REQUESTS ''SOS requests are rate limited''), afterStatement w)
         \<and> sosEvents (snd (sos_trigger input w)) = sosEvents w
         \<and> locationHistoryTable (snd (sos_trigger input w)) = locationHistoryTable w
         \<and> devices (snd (sos_trigger input w)) = devices w"
proof -
  have "sos_trigger input w =
          (Inl (TRPCError TOO_MANY_REQUESTS ''SOS requests are rate limited''), afterStatement w)"
    using assms
    by (simp add: sos_trigger_def procedure_eq io_bind_def[of "getSosRateLimit _"]
        getSosRateLimit_eq io_bind_def[of newDate] newDate_def rateLimited_def io_throw_def
        afterStatement_def)
  then show ?thesis by (simp add: afterStatement_def)
qed

theorem sos_trigger_rate_limited_witness:
  "dbReady blockedWorld \<and> \<not> nextFault blockedWorld
   \<and> find (\<lambda>r. rl_deviceId r = ti_deviceId sampleTrigger) (sosRateLimitTable blockedWorld)
       = Some \<lparr>rl_deviceId = ''d1'', rl_sosCount = 5, rl_windowStart = 0, rl_isBlocked = True,
               rl_blockedUntil = Some 2000\<rparr>
   \<and> clock blockedWorld < 2000
   \<and> fst (sos_trigger sampleTrigger blockedWorld)
       = Inl (TRPCError TOO_MANY_REQUESTS ''SOS requests are rate limited'')
   \<and> sosEvents (snd (sos_trigger sampleTrigger blockedWorld)) = []
   \<and> locationHistoryTable (snd (sos_trigger sampleTrigger blockedWorld)) = []
   \<and> devices (snd (sos_trigger sampleTrigger blockedWorld)) = [asha]"
proof -
  have h: "dbReady blockedWorld" "\<not> nextFault blockedWorld"
    "find (\<lambda>r. rl_deviceId r = ti_deviceId sampleTrigger) (sosRateLimitTable blockedWorld)
       = Some \<lparr>rl_deviceId = ''d1'', rl_sosCount = 5, rl_windowStart = 0, rl_isBlocked = True,
               rl_blockedUntil = Some 2000\<rparr>"
    "clock blockedWorld < 2000"
    by (simp_all add: blockedWorld_def world0_def sampleTrigger_def nextFault_def)
  from sos_trigger_rate_limited [OF h(1) h(2) h(3) _ _ h(4)]
  have "fst (sos_trigger sampleTrigger blockedWorld)
          = Inl (TRPCError TOO_MANY_REQUESTS ''SOS requests are rate limited'')
        \<and> sosEvents (snd (sos_trigger sampleTrigger blockedWorld)) = sosEvents blockedWorld
        \<and> locationHistoryTable (snd (sos_trigger sampleTrigger blockedWorld))
            = locationHistoryTable blockedWorld
        \<and> devices (snd (sos_trigger sampleTrigger blockedWorld)) = devices blockedWorld"
    by (simp add: afterStatement_def)
  then show ?thesis
    using h by (simp add: blockedWorld_def world0_def)
qed

subsection \<open>A trigger that returns\<close>

lemmas trigger_simps = sos_trigger_def io_simps getSosRateLimit_eq createSosEvent_eq
  addLocationHistory_eq updateDevice_eq sosEventRow_toString locationRow_toString
  storedDevicePatch_toString devicePatchEmpty_def afterStatement_def nextFault_def
  accuracyInRange_None

text \<open>
  A trigger returns an event when the device is not blocked, the coordinates are in the
  range of their columns, the six statements of the call are answered and the fresh
  identifier is not the \<open>eventId\<close> of a stored event.
\<close>

lemma sos_trigger_succeeds:
  assumes "dbReady w" and "faultFree 6 w"
    and "\<not> rateLimited (find (\<lambda>r. rl_deviceId r = ti_deviceId input) (sosRateLimitTable w)) (clock w)"
    and "\<not> list_ex (\<lambda>e. ev_eventId e = nanoidSeq w (nanoidCount w)) (sosEvents w)"
    and "latitudeInRange (ti_latitude input)" and "longitudeInRange (ti_longitude input)"
  shows "\<exists>ev w'. sos_trigger input w = (Inr ev, w') \<and> ev_eventId ev = nanoidSeq w (nanoidCount w)"
  using assms
  by (simp add: eval_nat_numeral faultFree_Suc faultFree_0 trigger_simps)

text \<open>
  Claim C3. A call of \<open>sos.trigger\<close> that returns an event has created exactly that one
  SosEvent row, with status \<open>active\<close>, has appended exactly one LocationHistory row and has
  set the last-known-location fields of the device. The coordinates of the three are not
  the input coordinates but what the \<open>decimal(10,8)\<close> and \<open>decimal(11,8)\<close> columns keep of
  them: the input rounded to eight fractional digits, which is the input itself when the
  input has no more than eight.
\<close>

theorem sos_trigger_success:
  assumes "sos_trigger input w = (Inr ev, w')"
  shows "sosEvents w' = sosEvents w @ [ev]
         \<and> ev_status ev = Active
         \<and> ev_deviceId ev = ti_deviceId input
         \<and> ev_triggerType ev = ti_triggerType input
         \<and> ev_initialLat ev = DecimalText (roundTo 8 (ti_latitude input))
         \<and> ev_initialLng ev = DecimalText (roundTo 8 (ti_longitude input))
         \<and> ev_trackingStartedAt ev = Some (clock w)
         \<and> locationHistoryTable w' = locationHistoryTable w @
              [\<lparr>loc_eventId = ev_eventId ev, loc_deviceId = ti_deviceId input,
                loc_latitude = DecimalText (roundTo 8 (ti_latitude input)),
                loc_longitude = DecimalText (roundTo 8 (ti_longitude input)),
                loc_accuracy = None, loc_createdAt = clock w\<rparr>]
         \<and> devices w' = map (lastLocationSet (ti_deviceId input) (roundTo 8 (ti_latitude input))
                               (roundTo 8 (ti_longitude input)) (clock w)) (devices w)
         \<and> \<bar>roundTo 8 (ti_latitude input) - ti_latitude input\<bar> \<le> 1 / (2 * 10 ^ 8)
         \<and> \<bar>roundTo 8 (ti_longitude input) - ti_longitude input\<bar> \<le> 1 / (2 * 10 ^ 8)
         \<and> fractionDigits (roundTo 8 (ti_latitude input)) 8
         \<and> fractionDigits (roundTo 8 (ti_longitude input)) 8
         \<and> (fractionDigits (ti_latitude input) 8 \<longrightarrow>
              roundTo 8 (ti_latitude input) = ti_latitude input)
         \<and> (fractionDigits (ti_longitude input) 8 \<longrightarrow>
              roundTo 8 (ti_longitude input) = ti_longitude input)"
proof -
  have run: "sosEvents w' = sosEvents w @ [ev]
         \<and> ev_status ev = Active
         \<and> ev_deviceId ev = ti_deviceId input
         \<and> ev_triggerType ev = ti_triggerType input
         \<and> ev_initialLat ev = DecimalText (roundTo 8 (ti_latitude input))
         \<and> ev_initialLng ev = DecimalText (roundTo 8 (ti_longitude input))
         \<and> ev_trackingStartedAt ev = Some (clock w)
         \<and> locationHistoryTable w' = locationHistoryTable w @
              [\<lparr>loc_eventId = ev_eventId ev, loc_deviceId = ti_deviceId input,
                loc_latitude = DecimalText (roundTo 8 (ti_latitude input)),
                loc_longitude = DecimalText (roundTo 8 (ti_longitude input)),
                loc_accuracy = None, loc_createdAt = clock w\<rparr>]
         \<and> devices w' = map (lastLocationSet (ti_deviceId input) (roundTo 8 (ti_latitude input))
                               (roundTo 8 (ti_longitude input)) (clock w)) (devices w)"
    using assms
    by (auto simp add: procedure_eq trigger_simps lastLocationSet_def
        split: if_splits option.splits sum.splits)
  show ?thesis
    using run roundTo_near [of 8 "ti_latitude input"] roundTo_near [of 8 "ti_longitude input"]
    by (simp add: roundTo_digits roundTo_exact)
qed

lemma fine_coordinates:
  "latitudeInRange fineLatitude" "longitudeInRange fineLongitude"
  "roundTo 8 fineLatitude = 12.12345679" "roundTo 8 fineLongitude = 77.59460001"
  by (simp_all add: fineLatitude_def fineLongitude_def latitudeInRange_def longitudeInRange_def
      roundTo_def roundHalfAway_def floor_eq_iff)

lemma fineTrigger_fields:
  "ti_deviceId fineTrigger = ''d1''" "ti_triggerType fineTrigger = Manual"
  "ti_latitude fineTrigger = fineLatitude" "ti_longitude fineTrigger = fineLongitude"
  by (simp_all add: fineTrigger_def)

lemma sampleTrigger_fields:
  "ti_deviceId sampleTrigger = ''d1''" "ti_triggerType sampleTrigger = Manual"
  "latitudeInRange (ti_latitude sampleTrigger)" "longitudeInRange (ti_longitude sampleTrigger)"
  "roundTo 8 (ti_latitude sampleTrigger) = 12.9716"
  "roundTo 8 (ti_longitude sampleTrigger) = 77.5946"
  by (simp_all add: sampleTrigger_def latitudeInRange_def longitudeInRange_def roundTo_def
      roundHalfAway_def floor_eq_iff)

lemma fineTrigger_run:
  "sos_trigger fineTrigger world0 =
     (Inr (sampleEvent\<lparr>ev_initialLat := DecimalText 12.12345679,
                       ev_initialLng := DecimalText 77.59460001\<rparr>),
      world0\<lparr>sosEvents := [sampleEvent\<lparr>ev_initialLat := DecimalText 12.12345679,
                                        ev_initialLng := DecimalText 77.59460001\<rparr>],
             locationHistoryTable :=
               [\<lparr>loc_eventId = ''k'', loc_deviceId = ''d1'',
                 loc_latitude = DecimalText 12.12345679,
                 loc_longitude = DecimalText 77.59460001,
                 loc_accuracy = None, loc_createdAt = 1000\<rparr>],
             devices := [asha\<lparr>dev_lastLocationLat := Some (DecimalText 12.12345679),
                              dev_lastLocationLng := Some (DecimalText 77.59460001),
                              dev_lastLocationTimestamp := Some 1000\<rparr>],
             nanoidCount := 1\<rparr>)"
  by (simp add: procedure_eq trigger_simps rateLimited_def fineTrigger_fields fine_coordinates
      world0_def sampleEvent_def sampleIds_def asha_def)

theorem sos_trigger_success_witness:
  "sosEvents (snd (sos_trigger fineTrigger world0)) =
     sosEvents world0 @ [sampleEvent\<lparr>ev_initialLat := DecimalText 12.12345679,
                                     ev_initialLng := DecimalText 77.59460001\<rparr>]
   \<and> locationHistoryTable (snd (sos_trigger fineTrigger world0)) =
       locationHistoryTable world0 @
       [\<lparr>loc_eventId = ''k'', loc_deviceId = ''d1'', loc_latitude = DecimalText 12.12345679,
         loc_longitude = DecimalText 77.59460001, loc_accuracy = None, loc_createdAt = 1000\<rparr>]
   \<and> devices (snd (sos_trigger fineTrigger world0)) =
       map (lastLocationSet ''d1'' 12.12345679 77.59460001 1000) (devices world0)
   \<and> ti_latitude fineTrigger = fineLatitude
   \<and> roundTo 8 fineLatitude = 12.12345679"
proof -
  have c: "clock world0 = 1000"
    by (simp add: world0_def)
  from sos_trigger_success [OF fineTrigger_run]
  show ?thesis
    by (simp add: fineTrigger_run fineTrigger_fields fine_coordinates c sampleEvent_def)
qed

text \<open>
  Claim C3 as the specification words it, with the input coordinates in the row, does not
  hold: a trigger at latitude 12.123456789 returns, and the event it has stored carries
  12.12345679.
\<close>

theorem sos_trigger_rounds_coordinates:
  "fst (sos_trigger fineTrigger world0) =
     Inr (sampleEvent\<lparr>ev_initialLat := DecimalText 12.12345679,
                      ev_initialLng := DecimalText 77.59460001\<rparr>)
   \<and> sosEvents (snd (sos_trigger fineTrigger world0)) =
       [sampleEvent\<lparr>ev_initialLat := DecimalText 12.12345679,
                    ev_initialLng := DecimalText 77.59460001\<rparr>]
   \<and> toString (ti_latitude fineTrigger) = DecimalText 12.123456789
   \<and> DecimalText 12.12345679 \<noteq> toString (ti_latitude fineTrigger)"
  by (simp add: fineTrigger_run) (simp add: toString_def fineTrigger_def fineLatitude_def)

subsection \<open>Location updates\<close>







subsection \<open>Device registration\<close>

lemma createDevice_eq:
  "createDevice device w =
     (if \<not> dbReady w then (Inr None, w)
      else if nextFault w then (Inl (DriverError ''query failed''), afterStatement w)
      else if list_ex (\<lambda>old. dev_deviceId old = idev_deviceId device) (devices w)
        then (Inl (DriverError ''Duplicate entry''), afterStatement w)
      else if nextFault (afterStatement w)
        then (Inl (DriverError ''query failed''),
              (afterStatement (afterStatement w))
                \<lparr>devices := devices w @ [deviceRow device (clock w)]\<rparr>)
      else (Inr (Some (deviceRow device (clock w))),
            (afterStatement (afterStatement w))
              \<lparr>devices := devices w @ [deviceRow device (clock w)]\<rparr>))"
proof -
  have row: "dev_deviceId (deviceRow device (clock w)) = idev_deviceId device"
    by (simp add: deviceRow_def)
  have fresh: "\<not> list_ex (\<lambda>old. dev_deviceId old = idev_deviceId device) (devices w) \<Longrightarrow>
        find (\<lambda>d. dev_deviceId d = idev_deviceId device) (devices w @ [deviceRow device (clock w)])
          = Some (deviceRow device (clock w))"
    by (rule find_append_fresh) (simp_all add: row)
  show ?thesis
    by (simp add: createDevice_def io_simps db_insert_eq getDeviceByDeviceId_eq row fresh
        afterStatement_def nextFault_def)
qed

lemma register_stores:
  assumes "register input w = (Inr d, w')"
  shows "dbReady w' \<and> find (\<lambda>x. dev_deviceId x = ri_deviceId input) (devices w') = Some d"
  using assms
  by (auto simp add: register_def io_simps getDeviceByDeviceId_eq createDevice_eq
      afterStatement_def nextFault_def deviceRow_def list_ex_iff find_None_iff
      intro!: find_append_fresh
      split: if_splits option.splits)

text \<open>
  Registering twice: a registration that returned a device, followed by one for the same
  \<open>deviceId\<close> with other details, returns that device again.
\<close>

lemma register_twice:
  assumes "device_register isEmail input w = (Inr d, w')" and "\<not> nextFault w'"
    and "ri_deviceId again = ri_deviceId input" and "registerInputValid isEmail again"
  shows "device_register isEmail again w' = (Inr d, afterStatement w')"
proof -
  have "register input w = (Inr d, w')"
    using assms(1) by (simp add: device_register_def procedure_Inr io_throw_def split: if_splits)
  from register_stores [OF this] show ?thesis
    using assms(2-4)
    by (simp add: device_register_def procedure_eq register_def
        io_bind_def[of "getDeviceByDeviceId _"] getDeviceByDeviceId_eq io_return_def)
qed

text \<open>
  Claim C7. \<open>device.register\<close> is idempotent: when a device with the given \<open>deviceId\<close> is
  stored (and the lookup is answered), registering again returns the stored device as it
  is, whatever name, phone and email the call carries, and the only thing done is the
  lookup: no device row is created or changed. This holds of the mutation for every
  input, and of the procedure for every input that its schema accepts.
\<close>

theorem register_existing:
  assumes "dbReady w" and "\<not> nextFault w"
    and "find (\<lambda>d. dev_deviceId d = ri_deviceId input) (devices w) = Some d"
  shows "register input w = (Inr d, afterStatement w)
         \<and> (registerInputValid isEmail input \<longrightarrow>
               device_register isEmail input w = (Inr d, afterStatement w))
         \<and> devices (afterStatement w) = devices w"
  using assms
  by (simp add: device_register_def procedure_eq register_def
      io_bind_def[of "getDeviceByDeviceId _"] getDeviceByDeviceId_eq io_return_def
      afterStatement_def)

theorem register_existing_witness:
  "dbReady world0 \<and> \<not> nextFault world0
   \<and> find (\<lambda>d. dev_deviceId d = ri_deviceId sampleRegistration) (devices world0) = Some asha
   \<and> registerInputValid (\<lambda>e. True) sampleRegistration
   \<and> device_register (\<lambda>e. True) sampleRegistration world0 = (Inr asha, world0)
   \<and> dev_name asha \<noteq> ri_name sampleRegistration"
proof -
  have h: "dbReady world0" "\<not> nextFault world0"
    "find (\<lambda>d. dev_deviceId d = ri_deviceId sampleRegistration) (devices world0) = Some asha"
    by (simp_all add: world0_def nextFault_def sampleRegistration_def asha_def)
  have v: "registerInputValid (\<lambda>e. True) sampleRegistration"
    by (simp add: registerInputValid_def sampleRegistration_def)
  have s: "afterStatement world0 = world0"
    by (simp add: afterStatement_def world0_def)
  from register_existing [OF h, of "\<lambda>e. True"] v s h show ?thesis
    by (simp add: asha_def sampleRegistration_def)
qed

subsection \<open>Deleting a contact\<close>

text \<open>
  Claim C10. \<open>contacts.delete\<close>: when the store is available (the database handle is there
  and the DELETE statement is answered) the result is \<open>{success: true}\<close>, whether or not a
  contact with the id is stored; the result is \<open>{success: false}\<close> exactly when there is no
  database handle; and the call never fails with \<open>NOT_FOUND\<close>.
\<close>

theorem contacts_delete_success:
  "(dbReady w \<and> \<not> nextFault w \<longrightarrow> fst (contacts_delete id' w) = Inr \<lparr>success = True\<rparr>)
   \<and> (fst (contacts_delete id' w) = Inr \<lparr>success = False\<rparr> \<longleftrightarrow> \<not> dbReady w)
   \<and> fst (contacts_delete id' w) \<noteq> Inl (TRPCError NOT_FOUND msg)"
  by (simp add: contacts_delete_def procedure_eq deleteEmergencyContact_def io_bind_def
      io_return_def getDb_def db_delete_eq afterStatement_def)

theorem contacts_delete_success_witness:
  "dbReady world0 \<and> \<not> nextFault world0
   \<and> \<not> list_ex (\<lambda>c. of_int (ec_id c) = (7::rat)) (emergencyContacts world0)
   \<and> fst (contacts_delete 7 world0) = Inr \<lparr>success = True\<rparr>
   \<and> fst (contacts_delete 7 (world0\<lparr>dbReady := False\<rparr>)) = Inr \<lparr>success = False\<rparr>"
  using contacts_delete_success [of world0 7] contacts_delete_success [of "world0\<lparr>dbReady := False\<rparr>" 7]
  by (simp add: world0_def nextFault_def)

subsection \<open>The tracking registry\<close>

lemma cleanupLoop_eq:
  "cleanupLoop now' m entries sessions c =
     (c + length (filter (\<lambda>e. now' - ts_startedAt (snd e) > m) entries),
      filter (\<lambda>e. fst e \<notin> fst ` set (filter (\<lambda>e. now' - ts_startedAt (snd e) > m) entries)) sessions)"
proof (induction entries arbitrary: sessions c)
  case Nil
  then show ?case by simp
next
  case (Cons entry entries)
  obtain k s where entry: "entry = (k, s)" by (cases entry)
  show ?case
    by (simp add: entry Cons.IH mapDelete_def conj_commute)
qed

lemma filter_keys_distinct:
  assumes "distinct (map fst xs)"
  shows "filter (\<lambda>e. fst e \<notin> fst ` set (filter P xs)) xs = filter (\<lambda>e. \<not> P e) xs"
proof (rule filter_cong[OF refl])
  fix e assume e: "e \<in> set xs"
  have "inj_on fst (set xs)" using assms by (simp add: distinct_map)
  then have "\<And>e'. e' \<in> set xs \<Longrightarrow> fst e' = fst e \<Longrightarrow> e' = e"
    using e by (auto dest: inj_onD)
  then show "(fst e \<notin> fst ` set (filter P xs)) = (\<not> P e)"
    using e by auto
qed

text \<open>The keys of a \<open>Map\<close> are distinct; \<open>set\<close> and \<open>delete\<close> keep them so.\<close>

lemma mapSet_keys:
  "map fst (mapSet k v m) = (if k \<in> fst ` set m then map fst m else map fst m @ [k])"
proof (induction m)
  case Nil
  then show ?case by simp
next
  case (Cons entry m)
  obtain k' v' where entry: "entry = (k', v')" by (cases entry)
  show ?case
  proof (cases "k' = k")
    case True
    then show ?thesis by (simp add: entry)
  next
    case False
    then show ?thesis using Cons.IH by (simp add: entry)
  qed
qed

lemma mapSet_distinct: "distinct (map fst m) \<Longrightarrow> distinct (map fst (mapSet k v m))"
  by (simp add: mapSet_keys)

lemma mapDelete_distinct: "distinct (map fst m) \<Longrightarrow> distinct (map fst (mapDelete k m))"
  by (simp add: mapDelete_def distinct_map_filter)

lemma registry_keys_distinct:
  assumes "distinct (map fst (activeSessions w))"
  shows "distinct (map fst (activeSessions (snd (startTracking eventId deviceId w))))"
    and "distinct (map fst (activeSessions (snd (stopTracking eventId w))))"
    and "distinct (map fst (activeSessions (snd (cleanupExpiredSessions w))))"
  using assms
  by (simp_all add: startTracking_def Let_def stopTracking_def mapSet_distinct mapDelete_distinct
      cleanupExpiredSessions_def cleanupLoop_eq distinct_map_filter split: prod.splits)

text \<open>
  Claim C9. \<open>cleanupExpiredSessions\<close> removes from the registry exactly the sessions that
  started more than 24 hours before the current time, keeps every other session (in
  order), and returns the number of sessions it removed.
\<close>

theorem cleanupExpiredSessions_sweep:
  assumes "distinct (map fst (activeSessions w))"
  shows "cleanupExpiredSessions w =
           (length (filter (\<lambda>entry. olderThan24h (clock w) (snd entry)) (activeSessions w)),
            w\<lparr>activeSessions :=
                 filter (\<lambda>entry. \<not> olderThan24h (clock w) (snd entry)) (activeSessions w)\<rparr>)"
proof -
  have e: "(\<lambda>e. clock w - ts_startedAt (snd e) > 24 * 60 * 60 * 1000)
             = (\<lambda>entry. olderThan24h (clock w) (snd entry))"
    by (auto simp: olderThan24h_def)
  have loop: "cleanupLoop (clock w) (24 * 60 * 60 * 1000) (activeSessions w) (activeSessions w) 0 =
      (length (filter (\<lambda>entry. olderThan24h (clock w) (snd entry)) (activeSessions w)),
       filter (\<lambda>entry. \<not> olderThan24h (clock w) (snd entry)) (activeSessions w))"
    by (simp only: cleanupLoop_eq e filter_keys_distinct[OF assms] add_0)
  show ?thesis
    unfolding cleanupExpiredSessions_def Let_def loop by simp
qed

theorem cleanupExpiredSessions_sweep_witness:
  "distinct (map fst (activeSessions sessionsWorld))
   \<and> fst (cleanupExpiredSessions sessionsWorld) = 1
   \<and> map fst (activeSessions (snd (cleanupExpiredSessions sessionsWorld))) = [''e2'', ''e3'']"
proof -
  have d: "distinct (map fst (activeSessions sessionsWorld))"
    by (simp add: sessionsWorld_def world0_def)
  from cleanupExpiredSessions_sweep [OF d] d show ?thesis
    by (simp add: sessionsWorld_def world0_def olderThan24h_def)
qed


subsection \<open>The notifier\<close>

lemma createNotification_eq:
  "createNotification n w =
     (if \<not> dbReady w then (Inr None, w)
      else if nextFault w then (Inl (DriverError ''query failed''), afterStatement w)
      else if list_ex (\<lambda>old. nt_notificationId old = int_notificationId n) (notifications w)
        then (Inl (DriverError ''Duplicate entry''), afterStatement w)
      else if nextFault (afterStatement w)
        then (Inl (DriverError ''query failed''),
              (afterStatement (afterStatement w))
                \<lparr>notifications := notifications w @ [notificationRow n (clock w)]\<rparr>)
      else (Inr (Some (notificationRow n (clock w))),
            (afterStatement (afterStatement w))
              \<lparr>notifications := notifications w @ [notificationRow n (clock w)]\<rparr>))"
proof -
  have row: "nt_notificationId (notificationRow n (clock w)) = int_notificationId n"
    by (simp add: notificationRow_def)
  have fresh: "\<not> list_ex (\<lambda>old. nt_notificationId old = int_notificationId n) (notifications w) \<Longrightarrow>
        find (\<lambda>r. nt_notificationId r = int_notificationId n)
          (notifications w @ [notificationRow n (clock w)]) = Some (notificationRow n (clock w))"
    by (rule find_append_fresh) (simp_all add: row)
  show ?thesis
    by (simp add: createNotification_def io_simps db_insert_eq db_select_eq firstRow_take_filter
        row fresh afterStatement_def nextFault_def del: filter_append)
qed

lemma updateNotification_eq:
  "updateNotification notificationId updates w =
     (if \<not> dbReady w then (Inr None, w)
      else if notificationPatchEmpty updates then (Inl (JsError ''No values to set''), w)
      else if nextFault w then (Inl (DriverError ''query failed''), afterStatement w)
      else if nextFault (afterStatement w)
        then (Inl (DriverError ''query failed''),
              (afterStatement (afterStatement w))
                \<lparr>notifications :=
                   map (\<lambda>n. if nt_notificationId n = notificationId then setNotification updates n
                             else n) (notifications w)\<rparr>)
      else (Inr (find (\<lambda>n. nt_notificationId n = notificationId)
                   (map (\<lambda>n. if nt_notificationId n = notificationId then setNotification updates n
                              else n) (notifications w))),
            (afterStatement (afterStatement w))
              \<lparr>notifications :=
                 map (\<lambda>n. if nt_notificationId n = notificationId then setNotification updates n
                           else n) (notifications w)\<rparr>))"
  by (simp add: updateNotification_def io_simps db_update_eq db_select_eq firstRow_take_filter
      afterStatement_def nextFault_def)

lemmas notifier_defs = sendEmergencyAlert_def trySms_def sendSmsAlert_def sendEmailAlert_def
  sendTwilioSms_def sendEmailViaApi_def createNotification_eq updateNotification_eq
  io_simps afterStatement_def nextFault_def hasPhone_def hasEmail_def emailOrEmpty_def
  recipientOf_def notificationRow_def setNotification_def orKeep_def orKeepOpt_def
  notificationPatchEmpty_def


text \<open>
  An attempt that returns has sent: the placeholder senders always report success, and the
  Notification row of the attempt is marked \<open>sent\<close>.
\<close>

lemma sendSmsAlert_returns:
  assumes "sendSmsAlert eventId notificationId contact deviceName locationUrl w = (Inr r, w')"
  shows "r = \<lparr>res_success = True, res_notificationId = notificationId, res_type = Sms,
              res_recipient = ec_phone contact, res_error = None\<rparr>
         \<and> list_ex (\<lambda>n. nt_notificationId n = notificationId \<and> nt_type n = Sms
                        \<and> nt_status n = Sent) (notifications w')"
  using assms
  by (auto simp add: sendSmsAlert_def sendTwilioSms_def createNotification_eq updateNotification_eq
      io_simps afterStatement_def nextFault_def notificationRow_def setNotification_def
      orKeep_def orKeepOpt_def list_ex_iff notificationPatchEmpty_def
      split: if_splits option.splits)

lemma sendEmailAlert_returns:
  assumes "sendEmailAlert eventId notificationId contact deviceName locationUrl w = (Inr r, w')"
  shows "r = \<lparr>res_success = True, res_notificationId = notificationId, res_type = Email,
              res_recipient = emailOrEmpty contact, res_error = None\<rparr>
         \<and> list_ex (\<lambda>n. nt_notificationId n = notificationId \<and> nt_type n = Email
                        \<and> nt_status n = Sent) (notifications w')"
  using assms
  by (auto simp add: sendEmailAlert_def sendEmailViaApi_def createNotification_eq
      updateNotification_eq
      io_simps afterStatement_def nextFault_def notificationRow_def setNotification_def
      orKeep_def orKeepOpt_def list_ex_iff notificationPatchEmpty_def
      split: if_splits option.splits)

text \<open>
  Claim C4. \<open>sendEmergencyAlert\<close>, with \<open>notificationId\<close> the identifier it draws first:
  when the contact has a phone the SMS attempt runs first, and a result it returns is the
  result of the call. When the SMS attempt throws its error is dropped, and when the
  contact has no phone nothing is attempted; in both cases, if the contact has an email
  the call is the email attempt from there on, so that what the email attempt returns or
  throws is what the call returns or throws; and if it has none the call returns the
  failure result whose recipient is \<open>phone || email || "unknown"\<close>.
\<close>

theorem sendEmergencyAlert_channels:
  assumes "nanoid w = (Inr notificationId, w1)"
  shows "(\<forall>r w2. hasPhone contact
            \<and> sendSmsAlert (ev_eventId sosEvent) notificationId contact deviceName locationUrl w1
                = (Inr r, w2) \<longrightarrow>
            sendEmergencyAlert sosEvent contact deviceName locationUrl w = (Inr r, w2))
       \<and> (\<forall>e w2. (hasPhone contact
              \<and> sendSmsAlert (ev_eventId sosEvent) notificationId contact deviceName locationUrl w1
                  = (Inl e, w2))
            \<or> (\<not> hasPhone contact \<and> w2 = w1) \<longrightarrow>
            (if hasEmail contact
             then sendEmergencyAlert sosEvent contact deviceName locationUrl w
                  = sendEmailAlert (ev_eventId sosEvent) notificationId contact deviceName
                      locationUrl w2
             else sendEmergencyAlert sosEvent contact deviceName locationUrl w
                  = (Inr \<lparr>res_success = False, res_notificationId = notificationId,
                          res_type = Sms, res_recipient = recipientOf contact,
                          res_error = Some ''No valid contact method available''\<rparr>, w2)))"
  using assms
  by (auto simp add: sendEmergencyAlert_def trySms_def io_bind_def io_catch_def io_return_def)



theorem sendEmergencyAlert_channels_witness:
  "hasPhone contactBoth \<and> hasEmail contactBoth
   \<and> fst (sendSmsAlert ''k'' ''k'' contactBoth ''Asha'' ''https://maps.example/1''
            (smsDownWorld\<lparr>nanoidCount := 1\<rparr>)) = Inl (DriverError ''query failed'')
   \<and> fst (sendEmergencyAlert sampleEvent contactBoth ''Asha'' ''https://maps.example/1''
            smsDownWorld)
       = Inr \<lparr>res_success = True, res_notificationId = ''k'', res_type = Email,
              res_recipient = ''bina@example.org'', res_error = None\<rparr>
   \<and> fst (sendEmergencyAlert sampleEvent contactBoth ''Asha'' ''https://maps.example/1''
            bothDownWorld) = Inl (DriverError ''query failed'')
   \<and> fst (sendEmergencyAlert sampleEvent contactBoth ''Asha'' ''https://maps.example/1'' world0)
       = Inr \<lparr>res_success = True, res_notificationId = ''k'', res_type = Sms,
              res_recipient = ''8888888888'', res_error = None\<rparr>
   \<and> sendEmergencyAlert sampleEvent contactNone ''Asha'' ''https://maps.example/1'' world0
       = (Inr \<lparr>res_success = False, res_notificationId = ''k'', res_type = Sms,
               res_recipient = ''unknown'',
               res_error = Some ''No valid contact method available''\<rparr>,
          world0\<lparr>nanoidCount := 1\<rparr>)"
proof -
  have id: "nanoid world0 = (Inr ''k'', world0\<lparr>nanoidCount := 1\<rparr>)"
    by (simp add: nanoid_def world0_def sampleIds_def)
  have none: "\<not> hasPhone contactNone" "\<not> hasEmail contactNone"
    "recipientOf contactNone = ''unknown''"
    by (simp_all add: hasPhone_def hasEmail_def recipientOf_def contactNone_def)
  have unknown: "sendEmergencyAlert sampleEvent contactNone ''Asha'' ''https://maps.example/1'' world0
       = (Inr \<lparr>res_success = False, res_notificationId = ''k'', res_type = Sms,
               res_recipient = ''unknown'',
               res_error = Some ''No valid contact method available''\<rparr>,
          world0\<lparr>nanoidCount := 1\<rparr>)"
    using sendEmergencyAlert_channels [OF id, of contactNone sampleEvent "''Asha''"
        "''https://maps.example/1''"] none
    by simp
  have runs:
    "hasPhone contactBoth" "hasEmail contactBoth"
    "fst (sendSmsAlert ''k'' ''k'' contactBoth ''Asha'' ''https://maps.example/1''
            (smsDownWorld\<lparr>nanoidCount := 1\<rparr>)) = Inl (DriverError ''query failed'')"
    "fst (sendEmergencyAlert sampleEvent contactBoth ''Asha'' ''https://maps.example/1''
            smsDownWorld)
       = Inr \<lparr>res_success = True, res_notificationId = ''k'', res_type = Email,
              res_recipient = ''bina@example.org'', res_error = None\<rparr>"
    "fst (sendEmergencyAlert sampleEvent contactBoth ''Asha'' ''https://maps.example/1''
            bothDownWorld) = Inl (DriverError ''query failed'')"
    "fst (sendEmergencyAlert sampleEvent contactBoth ''Asha'' ''https://maps.example/1'' world0)
       = Inr \<lparr>res_success = True, res_notificationId = ''k'', res_type = Sms,
              res_recipient = ''8888888888'', res_error = None\<rparr>"
    by (simp_all add: notifier_defs smsDownWorld_def bothDownWorld_def world0_def
        contactBoth_def sampleEvent_def sampleIds_def)
  show ?thesis using unknown runs by simp
qed



subsection \<open>What an operation leaves of the SosEvent table\<close>

lemma follows_bind:
  assumes trans: "\<And>a b c. R a b \<Longrightarrow> R b c \<Longrightarrow> R a c"
    and m: "follows R m" and g: "\<And>x. follows R (g x)"
  shows "follows R (io_bind m g)"
  unfolding follows_def
proof
  fix w
  obtain r w' where mw: "m w = (r, w')" by (cases "m w")
  have 1: "R w w'" using m mw by (auto simp: follows_def dest: spec[of _ w])
  show "R w (snd (io_bind m g w))"
  proof (cases r)
    case (Inl e)
    then show ?thesis using 1 mw by (simp add: io_bind_def)
  next
    case (Inr x)
    have "R w' (snd (g x w'))" using g[of x] by (simp add: follows_def)
    then show ?thesis using 1 mw Inr trans by (auto simp add: io_bind_def)
  qed
qed

lemma follows_catch:
  assumes trans: "\<And>a b c. R a b \<Longrightarrow> R b c \<Longrightarrow> R a c"
    and m: "follows R m" and h: "\<And>e. follows R (h e)"
  shows "follows R (io_catch m h)"
  unfolding follows_def
proof
  fix w
  obtain r w' where mw: "m w = (r, w')" by (cases "m w")
  have 1: "R w w'" using m mw by (auto simp: follows_def dest: spec[of _ w])
  show "R w (snd (io_catch m h w))"
  proof (cases r)
    case (Inr x)
    then show ?thesis using 1 mw by (simp add: io_catch_def)
  next
    case (Inl e)
    have "R w' (snd (h e w'))" using h[of e] by (simp add: follows_def)
    then show ?thesis using 1 mw Inl trans by (auto simp add: io_catch_def)
  qed
qed

lemma follows_procedure: "follows R m \<Longrightarrow> follows R (procedure m)"
  by (simp add: follows_def procedure_eq)

lemma coordinatesStored_afterStatement: "coordinatesStored (afterStatement w) = coordinatesStored w"
  by (simp add: coordinatesStored_def afterStatement_def)

lemma eventsKept_refl: "eventsKept w w"
  by (simp add: eventsKept_def)

lemma eventsKept_trans: "eventsKept a b \<Longrightarrow> eventsKept b c \<Longrightarrow> eventsKept a c"
  by (simp add: eventsKept_def)

lemma kept_bind:
  assumes "follows eventsKept m" and "\<And>x. follows eventsKept (g x)"
  shows "follows eventsKept (io_bind m g)"
  by (rule follows_bind [of eventsKept]) (auto intro: assms dest: eventsKept_trans)

lemma kept_catch:
  assumes "follows eventsKept m" and "\<And>e. follows eventsKept (h e)"
  shows "follows eventsKept (io_catch m h)"
  by (rule follows_catch [of eventsKept]) (auto intro: assms dest: eventsKept_trans)

lemma kept_procedure: "follows eventsKept m \<Longrightarrow> follows eventsKept (procedure m)"
  by (rule follows_procedure)

lemma kept_pure:
  "follows eventsKept (io_return x)" "follows eventsKept (io_throw e)"
  "follows eventsKept getDb" "follows eventsKept newDate" "follows eventsKept defaultNow"
  "follows eventsKept nanoid" "follows eventsKept execute" "follows eventsKept autoIncrement"
  "follows eventsKept noValuesToSet"
  by (simp_all add: follows_def eventsKept_def io_simps execute_eq afterStatement_def
      autoIncrement_def coordinatesStored_def)

lemma kept_select: "follows eventsKept (db_select table cond)"
  by (simp add: follows_def eventsKept_def db_select_eq afterStatement_def coordinatesStored_def)

lemma kept_insert:
  assumes "\<And>f w. sosEvents (table_update f w) = sosEvents w"
    and "\<And>f w. dbReady (table_update f w) = dbReady w"
    and "\<And>row w. stored = Inr row \<Longrightarrow> coordinatesStored w \<Longrightarrow>
           coordinatesStored (table_update (\<lambda>rows. rows @ [row]) w)"
  shows "follows eventsKept (db_insert table table_update clash stored)"
  unfolding follows_def eventsKept_def db_insert_eq
  by (cases stored)
    (simp_all add: assms coordinatesStored_afterStatement, simp_all add: afterStatement_def)

lemma kept_update:
  assumes "\<And>f w. sosEvents (table_update f w) = sosEvents w"
    and "\<And>f w. dbReady (table_update f w) = dbReady w"
    and "\<And>change w. stored = Inr change \<Longrightarrow> coordinatesStored w \<Longrightarrow>
           coordinatesStored (table_update (map (\<lambda>r. if cond r then change r else r)) w)"
  shows "follows eventsKept (db_update table table_update cond stored)"
  unfolding follows_def eventsKept_def db_update_eq
  by (cases stored)
    (simp_all add: assms coordinatesStored_afterStatement, simp_all add: afterStatement_def)

lemma kept_delete:
  assumes "\<And>f w. sosEvents (table_update f w) = sosEvents w"
    and "\<And>f w. dbReady (table_update f w) = dbReady w"
    and "\<And>w. coordinatesStored w \<Longrightarrow>
           coordinatesStored (table_update (filter (\<lambda>r. \<not> cond r)) w)"
  shows "follows eventsKept (db_delete table_update cond)"
  unfolding follows_def eventsKept_def db_delete_eq
  by (simp add: assms coordinatesStored_afterStatement) (simp add: afterStatement_def)

lemma kept_if:
  "follows eventsKept a \<Longrightarrow> follows eventsKept b \<Longrightarrow> follows eventsKept (if c then a else b)"
  by simp

lemma kept_option:
  "follows eventsKept a \<Longrightarrow> (\<And>x. follows eventsKept (b x)) \<Longrightarrow>
   follows eventsKept (case v of None \<Rightarrow> a | Some x \<Rightarrow> b x)"
  by (cases v) simp_all

lemmas kept_intros = kept_procedure kept_bind kept_catch kept_pure kept_select kept_insert
  kept_update kept_delete kept_if kept_option

lemma kept_createNotification: "follows eventsKept (createNotification n)"
  unfolding createNotification_def
  by (intro kept_intros) (simp_all add: coordinatesStored_def)

lemma kept_updateNotification: "follows eventsKept (updateNotification i u)"
  unfolding updateNotification_def
  by (intro kept_intros) (simp_all add: coordinatesStored_def)

lemma kept_sendSmsAlert: "follows eventsKept (sendSmsAlert e i c d l)"
  unfolding sendSmsAlert_def sendTwilioSms_def
  by (intro kept_intros kept_createNotification kept_updateNotification)

lemma kept_sendEmailAlert: "follows eventsKept (sendEmailAlert e i c d l)"
  unfolding sendEmailAlert_def sendEmailViaApi_def
  by (intro kept_intros kept_createNotification kept_updateNotification)

lemma kept_sendEmergencyAlert: "follows eventsKept (sendEmergencyAlert e c d l)"
  unfolding sendEmergencyAlert_def trySms_def
  by (intro kept_intros kept_sendSmsAlert kept_sendEmailAlert)

lemma kept_notifyContact: "follows eventsKept (notifyContact e d l c rs)"
  unfolding notifyContact_def
  by (intro kept_intros kept_sendEmergencyAlert)

subsection \<open>The fan-out\<close>

lemma notifyContact_eq:
  "notifyContact sosEvent deviceName locationUrl contact results w =
     (case sendEmergencyAlert sosEvent contact deviceName locationUrl w of
        (Inr r, w') \<Rightarrow> (Inr (results @ [r]), w')
      | (Inl e, w') \<Rightarrow>
          (Inr (results @ [\<lparr>res_success = False,
                             res_notificationId = nanoidSeq w' (nanoidCount w'),
                             res_type = Sms, res_recipient = recipientOf contact,
                             res_error = Some (message e)\<rparr>]),
           w'\<lparr>nanoidCount := Suc (nanoidCount w')\<rparr>))"
  by (simp add: notifyContact_def io_simps split: prod.splits sum.splits)

text \<open>The body of the loop appends the attempt for the contact.\<close>

lemma notifyContact_attempt:
  "notifyContact sosEvent deviceName locationUrl contact results w =
     (Inr (results @ [fst (attempt sosEvent deviceName locationUrl contact w)]),
      snd (attempt sosEvent deviceName locationUrl contact w))"
  by (simp add: notifyContact_eq attempt_def split: prod.splits sum.splits)

text \<open>The loop is the attempts for the active contacts, one after the other, and nothing else.\<close>

lemma notifyLoop_attemptEach:
  "notifyLoop sosEvent deviceName locationUrl contacts results w =
     (Inr (results @ fst (attemptEach sosEvent deviceName locationUrl
                            (filter ec_isActive contacts) w)),
      snd (attemptEach sosEvent deviceName locationUrl (filter ec_isActive contacts) w))"
proof (induction contacts arbitrary: results w)
  case Nil
  then show ?case by simp
next
  case (Cons contact contacts)
  show ?case
  proof (cases "ec_isActive contact")
    case False
    then show ?thesis using Cons.IH [of results w] by simp
  next
    case True
    then show ?thesis
      using Cons.IH [of "results @ [fst (attempt sosEvent deviceName locationUrl contact w)]"
          "snd (attempt sosEvent deviceName locationUrl contact w)"]
      by (simp add: notifyContact_attempt split: prod.splits)
  qed
qed

lemma attemptEach_Cons:
  "attemptEach sosEvent deviceName locationUrl (contact # contacts) w =
     (fst (attempt sosEvent deviceName locationUrl contact w)
        # fst (attemptEach sosEvent deviceName locationUrl contacts
                 (snd (attempt sosEvent deviceName locationUrl contact w))),
      snd (attemptEach sosEvent deviceName locationUrl contacts
             (snd (attempt sosEvent deviceName locationUrl contact w))))"
  by (simp split: prod.splits)


lemma kept_attempt: "eventsKept w (snd (attempt sosEvent deviceName locationUrl contact w))"
proof -
  have "snd (attempt sosEvent deviceName locationUrl contact w)
        = snd (notifyContact sosEvent deviceName locationUrl contact [] w)"
    by (simp add: notifyContact_attempt)
  then show ?thesis
    using kept_notifyContact [of sosEvent deviceName locationUrl contact "[]"]
    by (simp add: follows_def)
qed

lemma kept_attemptEach:
  "eventsKept w (snd (attemptEach sosEvent deviceName locationUrl contacts w))"
proof (induction contacts arbitrary: w)
  case Nil
  then show ?case by (simp add: eventsKept_refl)
next
  case (Cons contact contacts)
  have "eventsKept (snd (attempt sosEvent deviceName locationUrl contact w))
          (snd (attemptEach sosEvent deviceName locationUrl contacts
                  (snd (attempt sosEvent deviceName locationUrl contact w))))"
    by (rule Cons.IH)
  with kept_attempt [of w sosEvent deviceName locationUrl contact]
  have "eventsKept w
          (snd (attemptEach sosEvent deviceName locationUrl contacts
                  (snd (attempt sosEvent deviceName locationUrl contact w))))"
    by (rule eventsKept_trans)
  then show ?case by (simp add: attemptEach_Cons del: attemptEach.simps(2))
qed

lemma kept_notifyLoop: "follows eventsKept (notifyLoop e d l cs rs)"
  by (simp add: follows_def notifyLoop_attemptEach kept_attemptEach)


lemma updateSosEvent_eq:
  "updateSosEvent eventId updates w =
     (if \<not> dbReady w then (Inr None, w)
      else if sosEventPatchEmpty updates then (Inl (JsError ''No values to set''), w)
      else if nextFault w then (Inl (DriverError ''query failed''), afterStatement w)
      else if nextFault (afterStatement w)
        then (Inl (DriverError ''query failed''),
              (afterStatement (afterStatement w))
                \<lparr>sosEvents := map (\<lambda>e. if ev_eventId e = eventId then setSosEvent updates e else e)
                                 (sosEvents w)\<rparr>)
      else (Inr (find (\<lambda>e. ev_eventId e = eventId)
                   (map (\<lambda>e. if ev_eventId e = eventId then setSosEvent updates e else e)
                      (sosEvents w))),
            (afterStatement (afterStatement w))
              \<lparr>sosEvents := map (\<lambda>e. if ev_eventId e = eventId then setSosEvent updates e else e)
                               (sosEvents w)\<rparr>))"
  by (simp add: updateSosEvent_def io_simps db_update_eq getSosEventByEventId_eq
      afterStatement_def nextFault_def)



subsection \<open>What the columns keep\<close>

lemma sosEventRow_fits:
  assumes "sosEventRow event c = Inr row"
  shows "ev_status row = iev_status event
         \<and> fits \<lparr>dec_precision = 10, dec_scale = 8\<rparr> (ev_initialLat row)
         \<and> fits \<lparr>dec_precision = 11, dec_scale = 8\<rparr> (ev_initialLng row)"
  using assms
  by (auto simp add: sosEventRow_def split: sum.splits dest: decimalColumn_fits)

lemma locationRow_fits:
  assumes "locationRow location c = Inr row"
  shows "fits \<lparr>dec_precision = 10, dec_scale = 8\<rparr> (loc_latitude row)
         \<and> fits \<lparr>dec_precision = 11, dec_scale = 8\<rparr> (loc_longitude row)"
  using assms
  by (auto simp add: locationRow_def split: sum.splits dest: decimalColumn_fits)

lemma queueRow_fits:
  assumes "queueRow request c = Inr row"
  shows "fits \<lparr>dec_precision = 10, dec_scale = 8\<rparr> (q_latitude row)
         \<and> fits \<lparr>dec_precision = 11, dec_scale = 8\<rparr> (q_longitude row)"
  using assms
  by (auto simp add: queueRow_def split: sum.splits dest: decimalColumn_fits)

lemma storedDevicePatch_fits:
  assumes "storedDevicePatch updates = Inr change"
    and "fitsOptional \<lparr>dec_precision = 10, dec_scale = 8\<rparr> (dev_lastLocationLat d)"
    and "fitsOptional \<lparr>dec_precision = 11, dec_scale = 8\<rparr> (dev_lastLocationLng d)"
  shows "fitsOptional \<lparr>dec_precision = 10, dec_scale = 8\<rparr> (dev_lastLocationLat (change d))
         \<and> fitsOptional \<lparr>dec_precision = 11, dec_scale = 8\<rparr> (dev_lastLocationLng (change d))"
proof -
  obtain lat lng where
    lat: "optionalDecimalColumn \<lparr>dec_precision = 10, dec_scale = 8\<rparr>
            (pdev_lastLocationLat updates) = Inr lat"
    and lng: "optionalDecimalColumn \<lparr>dec_precision = 11, dec_scale = 8\<rparr>
            (pdev_lastLocationLng updates) = Inr lng"
    and change: "change = setDevice (updates\<lparr>pdev_lastLocationLat := lat,
                                            pdev_lastLocationLng := lng\<rparr>)"
    using assms(1) by (auto simp add: storedDevicePatch_def split: sum.splits)
  have "fitsOptional \<lparr>dec_precision = 10, dec_scale = 8\<rparr> lat"
    "fitsOptional \<lparr>dec_precision = 11, dec_scale = 8\<rparr> lng"
    using lat lng by (simp_all add: optionalDecimalColumn_fits)
  then show ?thesis
    using assms(2,3)
    by (auto simp add: change setDevice_def orKeepOpt_def split: option.splits)
qed

subsection \<open>The operations that leave the SosEvent table alone\<close>

lemma kept_getDeviceByDeviceId: "follows eventsKept (getDeviceByDeviceId d)"
  unfolding getDeviceByDeviceId_def by (intro kept_intros)

lemma kept_createDevice: "follows eventsKept (createDevice d)"
  unfolding createDevice_def
  by (intro kept_intros kept_getDeviceByDeviceId)
    (auto simp add: coordinatesStored_def deviceRow_def fitsOptional_def)

lemma kept_updateDevice: "follows eventsKept (updateDevice d u)"
  unfolding updateDevice_def
  by (intro kept_intros kept_getDeviceByDeviceId)
    (auto simp add: coordinatesStored_def list_all_iff dest: storedDevicePatch_fits)

lemma kept_getEmergencyContacts: "follows eventsKept (getEmergencyContacts d)"
  unfolding getEmergencyContacts_def by (intro kept_intros)

lemma kept_deleteEmergencyContact: "follows eventsKept (deleteEmergencyContact i)"
  unfolding deleteEmergencyContact_def
  by (intro kept_intros) (simp_all add: coordinatesStored_def)

lemma kept_getSosEventByEventId: "follows eventsKept (getSosEventByEventId i)"
  unfolding getSosEventByEventId_def by (intro kept_intros)

lemma kept_addLocationHistory: "follows eventsKept (addLocationHistory l)"
  unfolding addLocationHistory_def
  by (intro kept_intros) (auto simp add: coordinatesStored_def dest: locationRow_fits)

lemma kept_getSosRateLimit: "follows eventsKept (getSosRateLimit d)"
  unfolding getSosRateLimit_def by (intro kept_intros)

lemma kept_createEmergencyContact: "follows eventsKept (createEmergencyContact c)"
  unfolding createEmergencyContact_def
  by (intro kept_intros kept_getEmergencyContacts) (simp_all add: coordinatesStored_def)

lemma kept_updateEmergencyContact: "follows eventsKept (updateEmergencyContact i u)"
  unfolding updateEmergencyContact_def
  by (intro kept_intros) (simp_all add: coordinatesStored_def)

lemma kept_getActiveSosEvents: "follows eventsKept (getActiveSosEvents d)"
  unfolding getActiveSosEvents_def by (intro kept_intros)

lemma kept_getLocationHistory: "follows eventsKept (getLocationHistory e)"
  unfolding getLocationHistory_def by (intro kept_intros)

lemma kept_addOfflineSosRequest: "follows eventsKept (addOfflineSosRequest r)"
  unfolding addOfflineSosRequest_def
  by (intro kept_intros) (auto simp add: coordinatesStored_def dest: queueRow_fits)

lemma kept_getPendingOfflineSosRequests: "follows eventsKept (getPendingOfflineSosRequests d)"
  unfolding getPendingOfflineSosRequests_def by (intro kept_intros)

lemma kept_updateOfflineSosRequest: "follows eventsKept (updateOfflineSosRequest q u)"
  unfolding updateOfflineSosRequest_def
  by (intro kept_intros) (auto simp add: coordinatesStored_def list_all_iff setQueued_def)

lemma kept_device_getDevice: "follows eventsKept (device_getDevice d)"
  unfolding device_getDevice_def by (intro kept_intros kept_getDeviceByDeviceId)

lemma kept_device_updateDevice: "follows eventsKept (device_updateDevice isEmail input)"
  unfolding device_updateDevice_def by (intro kept_intros kept_updateDevice)

lemma kept_contacts_list: "follows eventsKept (contacts_list d)"
  unfolding contacts_list_def by (intro kept_intros kept_getEmergencyContacts)

lemma kept_contacts_add: "follows eventsKept (contacts_add isEmail input)"
  unfolding contacts_add_def by (intro kept_intros kept_createEmergencyContact)

lemma kept_contacts_update: "follows eventsKept (contacts_update isEmail input)"
  unfolding contacts_update_def by (intro kept_intros kept_updateEmergencyContact)

lemma kept_sos_getActive: "follows eventsKept (sos_getActive d)"
  unfolding sos_getActive_def by (intro kept_intros kept_getActiveSosEvents)

lemma kept_sos_getLocationHistory: "follows eventsKept (sos_getLocationHistory e)"
  unfolding sos_getLocationHistory_def by (intro kept_intros kept_getLocationHistory)

lemma kept_offline_queueSos: "follows eventsKept (offline_queueSos d la lo)"
  unfolding offline_queueSos_def by (intro kept_intros kept_addOfflineSosRequest)

lemma kept_offline_getPending: "follows eventsKept (offline_getPending d)"
  unfolding offline_getPending_def by (intro kept_intros kept_getPendingOfflineSosRequests)

lemma kept_offline_markSynced: "follows eventsKept (offline_markSynced q e)"
  unfolding offline_markSynced_def by (intro kept_intros kept_updateOfflineSosRequest)

lemma kept_register: "follows eventsKept (device_register isEmail input)"
  unfolding device_register_def register_def
  by (intro kept_intros kept_getDeviceByDeviceId kept_createDevice)

lemma kept_contacts_delete: "follows eventsKept (contacts_delete i)"
  unfolding contacts_delete_def by (intro kept_intros kept_deleteEmergencyContact)

lemma kept_updateLocation: "follows eventsKept (updateLocation e d la lo a)"
  unfolding updateLocation_def
  by (intro kept_intros kept_getSosEventByEventId kept_addLocationHistory kept_updateDevice)

subsection \<open>The status of an event\<close>

lemma statusStep_refl: "statusStep e e"
  by (simp add: statusStep_def)

lemma statusStep_trans: "statusStep a b \<Longrightarrow> statusStep b c \<Longrightarrow> statusStep a c"
  by (auto simp add: statusStep_def)

lemma eventsEvolve_nth:
  "eventsEvolve w w' =
     ((\<forall>i < length (sosEvents w).
         i < length (sosEvents w') \<and> statusStep (sosEvents w ! i) (sosEvents w' ! i))
      \<and> (statusesWritten w \<longrightarrow> statusesWritten w')
      \<and> (coordinatesStored w \<longrightarrow> coordinatesStored w'))"
proof -
  have le: "\<And>n m P. (\<forall>i<n. i < m \<and> P i) \<Longrightarrow> n \<le> (m::nat)"
  proof -
    fix n m :: nat and P
    assume a: "\<forall>i<n. i < m \<and> P i"
    show "n \<le> m"
    proof (cases n)
      case 0
      then show ?thesis by simp
    next
      case (Suc k)
      then have "k < m" using a by simp
      then show ?thesis using Suc by simp
    qed
  qed
  show ?thesis
    using le [of "length (sosEvents w)" "length (sosEvents w')"]
    by (auto simp add: eventsEvolve_def list_all2_conv_all_nth min_def)
qed

lemma eventsEvolve_refl: "eventsEvolve w w"
  by (simp add: eventsEvolve_nth statusStep_refl)

lemma eventsEvolve_trans:
  assumes "eventsEvolve a b" and "eventsEvolve b c"
  shows "eventsEvolve a c"
proof -
  have "\<forall>i < length (sosEvents a).
          i < length (sosEvents c) \<and> statusStep (sosEvents a ! i) (sosEvents c ! i)"
    using assms unfolding eventsEvolve_nth by (meson statusStep_trans)
  then show ?thesis
    using assms by (simp add: eventsEvolve_nth)
qed

lemma eventsKept_evolve: "eventsKept w w' \<Longrightarrow> eventsEvolve w w'"
  by (simp add: eventsKept_def eventsEvolve_nth statusStep_refl statusesWritten_def)

lemma follows_weaken: "follows eventsKept m \<Longrightarrow> follows eventsEvolve m"
  by (simp add: follows_def eventsKept_evolve)

lemma evolve_bind:
  assumes "follows eventsEvolve m" and "\<And>x. follows eventsEvolve (g x)"
  shows "follows eventsEvolve (io_bind m g)"
  by (rule follows_bind [of eventsEvolve]) (auto intro: assms dest: eventsEvolve_trans)

lemma evolve_catch:
  assumes "follows eventsEvolve m" and "\<And>e. follows eventsEvolve (h e)"
  shows "follows eventsEvolve (io_catch m h)"
  by (rule follows_catch [of eventsEvolve]) (auto intro: assms dest: eventsEvolve_trans)

lemma evolve_procedure: "follows eventsEvolve m \<Longrightarrow> follows eventsEvolve (procedure m)"
  by (rule follows_procedure)

lemma evolve_if:
  "follows eventsEvolve a \<Longrightarrow> follows eventsEvolve b \<Longrightarrow> follows eventsEvolve (if c then a else b)"
  by simp

lemma evolve_option:
  "follows eventsEvolve a \<Longrightarrow> (\<And>x. follows eventsEvolve (b x)) \<Longrightarrow>
   follows eventsEvolve (case v of None \<Rightarrow> a | Some x \<Rightarrow> b x)"
  by (cases v) simp_all

lemma eventsEvolve_afterStatement: "eventsEvolve w (afterStatement w)"
  by (simp add: eventsEvolve_nth statusStep_refl afterStatement_def statusesWritten_def
      coordinatesStored_def)

text \<open>A new event is appended; the rows before it are as they were.\<close>

lemma evolve_createSosEvent:
  assumes "iev_status event = Active \<or> iev_status event = Resolved"
  shows "follows eventsEvolve (createSosEvent event)"
  unfolding follows_def
proof
  fix w
  show "eventsEvolve w (snd (createSosEvent event w))"
  proof (cases "sosEventRow event (clock w)")
    case (Inl e)
    then show ?thesis
      by (simp add: createSosEvent_eq eventsEvolve_refl eventsEvolve_afterStatement)
  next
    case (Inr row)
    note row = sosEventRow_fits [OF Inr]
    have "eventsEvolve w ((afterStatement (afterStatement w))\<lparr>sosEvents := sosEvents w @ [row]\<rparr>)"
      using row assms
      by (simp add: eventsEvolve_def list_all2_refl statusStep_refl statusesWritten_def
          coordinatesStored_def afterStatement_def)
    then show ?thesis
      by (simp add: createSosEvent_eq Inr eventsEvolve_refl eventsEvolve_afterStatement)
  qed
qed

text \<open>An update of events that leaves the status alone or sets it to \<open>resolved\<close>.\<close>

lemma evolve_updateSosEvent:
  assumes "pev_status updates = None \<or> pev_status updates = Some Resolved"
  shows "follows eventsEvolve (updateSosEvent eventId updates)"
  unfolding follows_def
proof
  fix w :: world
  let ?change = "\<lambda>e. if ev_eventId e = eventId then setSosEvent updates e else e"
  have step: "\<And>e. statusStep e (?change e)"
    using assms by (auto simp add: statusStep_def setSosEvent_def orKeep_def)
  have rows: "list_all2 statusStep (sosEvents w) (map ?change (sosEvents w))"
    by (simp add: list_all2_map2 list_all2_refl step del: if_split)
  have written: "statusesWritten w \<Longrightarrow>
      list_all (\<lambda>e. ev_status e = Active \<or> ev_status e = Resolved) (map ?change (sosEvents w))"
    using assms
    by (auto simp add: statusesWritten_def list_all_iff setSosEvent_def orKeep_def)
  have stored: "coordinatesStored w \<Longrightarrow>
      list_all (\<lambda>e. fits \<lparr>dec_precision = 10, dec_scale = 8\<rparr> (ev_initialLat e)
                   \<and> fits \<lparr>dec_precision = 11, dec_scale = 8\<rparr> (ev_initialLng e))
        (map ?change (sosEvents w))"
    by (auto simp add: coordinatesStored_def list_all_iff setSosEvent_def)
  have "eventsEvolve w
          ((afterStatement (afterStatement w))\<lparr>sosEvents := map ?change (sosEvents w)\<rparr>)"
    using rows written stored
    by (simp add: eventsEvolve_def statusesWritten_def coordinatesStored_def afterStatement_def
        del: if_split)
  then show "eventsEvolve w (snd (updateSosEvent eventId updates w))"
    by (simp add: updateSosEvent_eq eventsEvolve_refl eventsEvolve_afterStatement
        del: if_split)
qed

lemmas evolve_intros = evolve_procedure evolve_bind evolve_catch evolve_if evolve_option
  kept_pure [THEN follows_weaken]

lemma evolve_sos_trigger: "follows eventsEvolve (sos_trigger input)"
  unfolding sos_trigger_def
  by (intro evolve_intros evolve_createSosEvent kept_getSosRateLimit [THEN follows_weaken]
      kept_addLocationHistory [THEN follows_weaken] kept_updateDevice [THEN follows_weaken])
    simp_all

lemma evolve_sos_resolve: "follows eventsEvolve (sos_resolve eventId)"
  unfolding sos_resolve_def
  by (intro evolve_intros evolve_updateSosEvent) simp_all

lemma evolve_notifyAllContacts: "follows eventsEvolve (notifyAllContacts e d l)"
  unfolding notifyAllContacts_def
  by (intro evolve_intros evolve_updateSosEvent kept_getEmergencyContacts [THEN follows_weaken]
      kept_notifyLoop [THEN follows_weaken]) simp_all

lemma evolve_registry:
  "eventsEvolve w (snd (startTracking e d w))" "eventsEvolve w (snd (stopTracking e w))"
  "eventsEvolve w (snd (cleanupExpiredSessions w))"
  by (simp_all add: startTracking_def stopTracking_def cleanupExpiredSessions_def Let_def
      eventsEvolve_nth statusStep_refl statusesWritten_def coordinatesStored_def
      split: prod.splits)

lemma evolve_serve: "eventsEvolve w (serve isEmail request w)"
proof (cases request)
  case (DeviceRegister input)
  then show ?thesis
    using kept_register [of isEmail input, THEN follows_weaken] by (simp add: follows_def)
next
  case (DeviceGetDevice d)
  then show ?thesis
    using kept_device_getDevice [of d, THEN follows_weaken] by (simp add: follows_def)
next
  case (DeviceUpdateDevice input)
  then show ?thesis
    using kept_device_updateDevice [of isEmail input, THEN follows_weaken]
    by (simp add: follows_def)
next
  case (ContactsList d)
  then show ?thesis
    using kept_contacts_list [of d, THEN follows_weaken] by (simp add: follows_def)
next
  case (ContactsAdd input)
  then show ?thesis
    using kept_contacts_add [of isEmail input, THEN follows_weaken] by (simp add: follows_def)
next
  case (ContactsUpdate input)
  then show ?thesis
    using kept_contacts_update [of isEmail input, THEN follows_weaken] by (simp add: follows_def)
next
  case (ContactsDelete i)
  then show ?thesis
    using kept_contacts_delete [of i, THEN follows_weaken] by (simp add: follows_def)
next
  case (SosGetActive d)
  then show ?thesis
    using kept_sos_getActive [of d, THEN follows_weaken] by (simp add: follows_def)
next
  case (SosGetLocationHistory e)
  then show ?thesis
    using kept_sos_getLocationHistory [of e, THEN follows_weaken] by (simp add: follows_def)
next
  case (OfflineQueueSos d la lo)
  then show ?thesis
    using kept_offline_queueSos [of d la lo, THEN follows_weaken] by (simp add: follows_def)
next
  case (OfflineGetPending d)
  then show ?thesis
    using kept_offline_getPending [of d, THEN follows_weaken] by (simp add: follows_def)
next
  case (OfflineMarkSynced q e)
  then show ?thesis
    using kept_offline_markSynced [of q e, THEN follows_weaken] by (simp add: follows_def)
next
  case (SosTrigger input)
  then show ?thesis using evolve_sos_trigger [of input] by (simp add: follows_def)
next
  case (SosResolve eventId)
  then show ?thesis using evolve_sos_resolve [of eventId] by (simp add: follows_def)
next
  case (NotifyAllContacts e d l)
  then show ?thesis using evolve_notifyAllContacts [of e d l] by (simp add: follows_def)
next
  case (UpdateLocation e d la lo a)
  then show ?thesis
    using kept_updateLocation [of e d la lo a, THEN follows_weaken] by (simp add: follows_def)
next
  case (StartTracking e d)
  then show ?thesis by (simp add: evolve_registry)
next
  case (StopTracking e)
  then show ?thesis by (simp add: evolve_registry)
next
  case CleanupExpiredSessions
  then show ?thesis by (simp add: evolve_registry)
qed

lemma evolve_serveAll: "eventsEvolve w (serveAll isEmail requests w)"
proof (induction requests arbitrary: w)
  case Nil
  then show ?case by (simp add: eventsEvolve_refl)
next
  case (Cons request requests)
  show ?case
    using evolve_serve [of w isEmail request] Cons.IH [of "serve isEmail request w"]
    by (auto intro: eventsEvolve_trans)
qed

lemma sos_resolve_table:
  assumes "dbReady w" and "faultFree 2 w"
  shows "sosEvents (snd (sos_resolve eventId w)) =
           map (\<lambda>e. if ev_eventId e = eventId
                     then e\<lparr>ev_status := Resolved, ev_resolvedAt := Some (clock w)\<rparr> else e)
             (sosEvents w)"
proof -
  have f: "\<not> nextFault w" "\<not> nextFault (afterStatement w)"
    using assms(2) by (simp_all add: eval_nat_numeral faultFree_Suc)
  have set: "\<And>e. setSosEvent \<lparr>pev_status = Some Resolved, pev_resolvedAt = Some (clock w),
                               pev_notificationsSent = None\<rparr> e
               = e\<lparr>ev_status := Resolved, ev_resolvedAt := Some (clock w)\<rparr>"
    by (simp add: setSosEvent_def orKeep_def orKeepOpt_def)
  show ?thesis
    using assms(1) f
    by (simp add: sos_resolve_def procedure_eq io_bind_def io_return_def io_throw_def newDate_def
        updateSosEvent_eq sosEventPatchEmpty_def set afterStatement_def split: option.splits)
qed

lemma sampleTrigger_run:
  "sos_trigger sampleTrigger world0 =
     (Inr sampleEvent,
      world0\<lparr>sosEvents := [sampleEvent],
             locationHistoryTable :=
               [\<lparr>loc_eventId = ''k'', loc_deviceId = ''d1'', loc_latitude = DecimalText 12.9716,
                 loc_longitude = DecimalText 77.5946, loc_accuracy = None,
                 loc_createdAt = 1000\<rparr>],
             devices := [asha\<lparr>dev_lastLocationLat := Some (DecimalText 12.9716),
                              dev_lastLocationLng := Some (DecimalText 77.5946),
                              dev_lastLocationTimestamp := Some 1000\<rparr>],
             nanoidCount := 1\<rparr>)"
  by (simp add: procedure_eq trigger_simps rateLimited_def sampleTrigger_fields
      world0_def sampleEvent_def sampleIds_def asha_def)

text \<open>
  Claim C5. Start from a server that holds no SosEvent, let it serve any requests (the
  procedures of the router, \<open>notifyAllContacts\<close>, \<open>updateLocation\<close> and the operations of the
  tracking registry), and take an event it then holds. Through every further sequence of
  requests the event stays in its place and is the same event; its status is what it was,
  or it was \<open>active\<close> and is now \<open>resolved\<close>, one of the three statuses that the claim
  allows; and a status that is not \<open>active\<close> does not change again.
\<close>

theorem status_terminal:
  assumes "sosEvents w0 = []"
    and "w = serveAll isEmail before w0"
    and "w' = serveAll isEmail after w"
    and "i < length (sosEvents w)"
  shows "i < length (sosEvents w')
         \<and> ev_eventId (sosEvents w' ! i) = ev_eventId (sosEvents w ! i)
         \<and> (ev_status (sosEvents w' ! i) = ev_status (sosEvents w ! i)
            \<or> (ev_status (sosEvents w ! i) = Active \<and> ev_status (sosEvents w' ! i) = Resolved))
         \<and> (ev_status (sosEvents w ! i) \<noteq> Active \<longrightarrow>
              ev_status (sosEvents w' ! i) = ev_status (sosEvents w ! i))
         \<and> ev_status (sosEvents w' ! i) \<in> {Active, Resolved}"
proof -
  have "statusesWritten w0"
    using assms(1) by (simp add: statusesWritten_def)
  then have "statusesWritten w"
    using evolve_serveAll [of w0 isEmail before] assms(2) by (simp add: eventsEvolve_def)
  then have old: "ev_status (sosEvents w ! i) = Active \<or> ev_status (sosEvents w ! i) = Resolved"
    using assms(4) by (simp add: statusesWritten_def list_all_length)
  have "eventsEvolve w w'"
    using evolve_serveAll [of w isEmail after] assms(3) by simp
  then have "i < length (sosEvents w') \<and> statusStep (sosEvents w ! i) (sosEvents w' ! i)"
    using assms(4) by (simp add: eventsEvolve_nth)
  then show ?thesis
    using old by (auto simp add: statusStep_def)
qed

theorem status_terminal_witness:
  "sosEvents world0 = []
   \<and> map ev_status (sosEvents (serveAll (\<lambda>e. True) [SosTrigger sampleTrigger] world0)) = [Active]
   \<and> map ev_status
       (sosEvents (serveAll (\<lambda>e. True)
          [SosResolve ''k'', SosTrigger sampleTrigger, SosResolve ''k'']
          (serveAll (\<lambda>e. True) [SosTrigger sampleTrigger] world0))) = [Resolved, Active]
   \<and> ev_status (sosEvents (serveAll (\<lambda>e. True)
          [SosResolve ''k'', SosTrigger sampleTrigger, SosResolve ''k'']
          (serveAll (\<lambda>e. True) [SosTrigger sampleTrigger] world0)) ! 0) = Resolved"
proof -
  have empty: "sosEvents world0 = []"
    by (simp add: world0_def)
  have first: "sosEvents (serveAll (\<lambda>e. True) [SosTrigger sampleTrigger] world0) = [sampleEvent]"
    by (simp add: sampleTrigger_run)
  have i: "0 < length (sosEvents (serveAll (\<lambda>e. True) [SosTrigger sampleTrigger] world0))"
    by (simp add: sampleTrigger_run)
  have later: "map ev_status
       (sosEvents (serveAll (\<lambda>e. True)
          [SosResolve ''k'', SosTrigger sampleTrigger, SosResolve ''k'']
          (serveAll (\<lambda>e. True) [SosTrigger sampleTrigger] world0))) = [Resolved, Active]"
    by (simp add: sampleTrigger_run)
      (simp add: sos_resolve_def procedure_eq trigger_simps updateSosEvent_eq
        getSosEventByEventId_eq setSosEvent_def sosEventPatchEmpty_def orKeep_def orKeepOpt_def
        rateLimited_def sampleTrigger_fields world0_def sampleEvent_def sampleIds_def asha_def)
  from status_terminal [where after = "[SosResolve ''k'', SosTrigger sampleTrigger,
      SosResolve ''k'']", OF empty refl refl i]
  have "ev_status (sosEvents (serveAll (\<lambda>e. True)
          [SosResolve ''k'', SosTrigger sampleTrigger, SosResolve ''k'']
          (serveAll (\<lambda>e. True) [SosTrigger sampleTrigger] world0)) ! 0) \<in> {Active, Resolved}"
    by blast
  then show ?thesis
    using empty first later by (auto simp add: sampleEvent_def nth_map [symmetric])
qed

subsection \<open>The precision of stored coordinates\<close>

lemma storable_latitude:
  "storable \<lparr>dec_precision = 10, dec_scale = 8\<rparr> x = (fractionDigits x 8 \<and> \<bar>x\<bar> < 100)"
proof -
  have "\<bar>x * 10 ^ 8\<bar> < 10 ^ 10 \<longleftrightarrow> \<bar>x\<bar> * 10 ^ 8 < 100 * 10 ^ 8"
    by (simp add: abs_mult)
  also have "\<dots> \<longleftrightarrow> \<bar>x\<bar> < 100"
    by (rule mult_less_cancel_right_pos) simp
  finally show ?thesis by (simp add: storable_def)
qed

lemma storable_longitude:
  "storable \<lparr>dec_precision = 11, dec_scale = 8\<rparr> x = (fractionDigits x 8 \<and> \<bar>x\<bar> < 1000)"
proof -
  have "\<bar>x * 10 ^ 8\<bar> < 10 ^ 11 \<longleftrightarrow> \<bar>x\<bar> * 10 ^ 8 < 1000 * 10 ^ 8"
    by (simp add: abs_mult)
  also have "\<dots> \<longleftrightarrow> \<bar>x\<bar> < 1000"
    by (rule mult_less_cancel_right_pos) simp
  finally show ?thesis by (simp add: storable_def)
qed

lemma column_types:
  "snd (latitudeColumn table) = \<lparr>dec_precision = 10, dec_scale = 8\<rparr>"
  "snd (longitudeColumn table) = \<lparr>dec_precision = 11, dec_scale = 8\<rparr>"
  by (cases table; simp)+

text \<open>
  Claim C8, as the code has it. Every latitude and every longitude that the server stores,
  in each of the four tables that hold coordinates, has passed through its column, a
  \<open>decimal(10,8)\<close> for a latitude and a \<open>decimal(11,8)\<close> for a longitude: when the stored
  coordinates have eight digits after the point (and two, respectively three, before it),
  they still have after every sequence of requests.
\<close>

theorem stored_coordinates_precision:
  assumes "coordinatesStored w0" and "w = serveAll isEmail requests w0"
  shows "(\<forall>d x. d \<in> set (devices w) \<and> dev_lastLocationLat d = Some (DecimalText x) \<longrightarrow>
            fractionDigits x 8 \<and> \<bar>x\<bar> < 100)
         \<and> (\<forall>d x. d \<in> set (devices w) \<and> dev_lastLocationLng d = Some (DecimalText x) \<longrightarrow>
            fractionDigits x 8 \<and> \<bar>x\<bar> < 1000)
         \<and> (\<forall>e x. e \<in> set (sosEvents w) \<and> ev_initialLat e = DecimalText x \<longrightarrow>
            fractionDigits x 8 \<and> \<bar>x\<bar> < 100)
         \<and> (\<forall>e x. e \<in> set (sosEvents w) \<and> ev_initialLng e = DecimalText x \<longrightarrow>
            fractionDigits x 8 \<and> \<bar>x\<bar> < 1000)
         \<and> (\<forall>l x. l \<in> set (locationHistoryTable w) \<and> loc_latitude l = DecimalText x \<longrightarrow>
            fractionDigits x 8 \<and> \<bar>x\<bar> < 100)
         \<and> (\<forall>l x. l \<in> set (locationHistoryTable w) \<and> loc_longitude l = DecimalText x \<longrightarrow>
            fractionDigits x 8 \<and> \<bar>x\<bar> < 1000)
         \<and> (\<forall>q x. q \<in> set (offlineSosQueueTable w) \<and> q_latitude q = DecimalText x \<longrightarrow>
            fractionDigits x 8 \<and> \<bar>x\<bar> < 100)
         \<and> (\<forall>q x. q \<in> set (offlineSosQueueTable w) \<and> q_longitude q = DecimalText x \<longrightarrow>
            fractionDigits x 8 \<and> \<bar>x\<bar> < 1000)
         \<and> (\<forall>table. snd (latitudeColumn table) = \<lparr>dec_precision = 10, dec_scale = 8\<rparr>
              \<and> snd (longitudeColumn table) = \<lparr>dec_precision = 11, dec_scale = 8\<rparr>)"
proof -
  have "coordinatesStored w"
    using evolve_serveAll [of w0 isEmail requests] assms by (simp add: eventsEvolve_def)
  then have
    "list_all (\<lambda>d. fitsOptional \<lparr>dec_precision = 10, dec_scale = 8\<rparr> (dev_lastLocationLat d)
                  \<and> fitsOptional \<lparr>dec_precision = 11, dec_scale = 8\<rparr> (dev_lastLocationLng d))
       (devices w)"
    "list_all (\<lambda>e. fits \<lparr>dec_precision = 10, dec_scale = 8\<rparr> (ev_initialLat e)
                  \<and> fits \<lparr>dec_precision = 11, dec_scale = 8\<rparr> (ev_initialLng e))
       (sosEvents w)"
    "list_all (\<lambda>l. fits \<lparr>dec_precision = 10, dec_scale = 8\<rparr> (loc_latitude l)
                  \<and> fits \<lparr>dec_precision = 11, dec_scale = 8\<rparr> (loc_longitude l))
       (locationHistoryTable w)"
    "list_all (\<lambda>q. fits \<lparr>dec_precision = 10, dec_scale = 8\<rparr> (q_latitude q)
                  \<and> fits \<lparr>dec_precision = 11, dec_scale = 8\<rparr> (q_longitude q))
       (offlineSosQueueTable w)"
    by (simp_all add: coordinatesStored_def)
  then show ?thesis
    by (auto simp add: list_all_iff fits_def fitsOptional_def storable_latitude
        storable_longitude column_types)
qed

theorem stored_coordinates_precision_witness:
  "coordinatesStored world0
   \<and> sosEvents (serveAll (\<lambda>e. True) [SosTrigger fineTrigger] world0) =
       [sampleEvent\<lparr>ev_initialLat := DecimalText 12.12345679,
                    ev_initialLng := DecimalText 77.59460001\<rparr>]
   \<and> fractionDigits 12.12345679 8 \<and> \<bar>12.12345679\<bar> < (100::rat)
   \<and> fractionDigits 77.59460001 8 \<and> \<bar>77.59460001\<bar> < (1000::rat)"
proof -
  have stored: "coordinatesStored world0"
    by (simp add: coordinatesStored_def world0_def asha_def fitsOptional_def)
  have run: "sosEvents (serveAll (\<lambda>e. True) [SosTrigger fineTrigger] world0) =
       [sampleEvent\<lparr>ev_initialLat := DecimalText 12.12345679,
                    ev_initialLng := DecimalText 77.59460001\<rparr>]"
    by (simp add: fineTrigger_run)
  from stored_coordinates_precision [where isEmail = "\<lambda>e. True"
      and requests = "[SosTrigger fineTrigger]", OF stored refl]
  have "(\<forall>e x. e \<in> set (sosEvents (serveAll (\<lambda>e. True) [SosTrigger fineTrigger] world0))
               \<and> ev_initialLat e = DecimalText x \<longrightarrow> fractionDigits x 8 \<and> \<bar>x\<bar> < 100)
        \<and> (\<forall>e x. e \<in> set (sosEvents (serveAll (\<lambda>e. True) [SosTrigger fineTrigger] world0))
               \<and> ev_initialLng e = DecimalText x \<longrightarrow> fractionDigits x 8 \<and> \<bar>x\<bar> < 1000)"
    by blast
  then have "fractionDigits 12.12345679 8 \<and> \<bar>12.12345679\<bar> < (100::rat)
             \<and> fractionDigits 77.59460001 8 \<and> \<bar>77.59460001\<bar> < (1000::rat)"
    unfolding run by (simp add: sampleEvent_def)
  then show ?thesis
    using stored run by simp
qed

text \<open>
  Claim C8, as stated, gives the longitude 7 fractional digits. The longitude columns have
  scale 8: a trigger at longitude 77.59460001 stores that longitude, with its eighth
  fractional digit.
\<close>

theorem longitude_has_eight_fraction_digits:
  "map ev_initialLng (sosEvents (serveAll (\<lambda>e. True) [SosTrigger fineTrigger] world0))
     = [DecimalText fineLongitude]
   \<and> ti_longitude fineTrigger = fineLongitude
   \<and> fineLongitude = 77.59460001
   \<and> dec_scale (snd (longitudeColumn SosEvents)) = 8
   \<and> \<not> fractionDigits fineLongitude 7"
proof -
  have "\<lfloor>(7759460001::rat) / 10\<rfloor> = 775946000"
    by (simp add: floor_eq_iff)
  then have "\<not> fractionDigits fineLongitude 7"
    by (simp add: fractionDigits_def fineLongitude_def)
  then show ?thesis
    by (simp add: fineTrigger_run fineTrigger_fields) (simp add: fineLongitude_def)
qed

end
